theory Spec2Isabelle
  imports Main "HOL-Library.Char_ord" "HOL-Library.List_Lexorder" "HOL-Library.Multiset"
    "HOL-Library.AList" "HOL-Library.Word"
begin

section \<open>Surfshark server list update (internal/updater/surfshark.go)\<close>

text \<open>
  The theory embeds \<^verbatim>\<open>updateSurfshark\<close>, \<^verbatim>\<open>findSurfsharkServersFromZip\<close>,
  \<^verbatim>\<open>getRemainingServers\<close>, \<^verbatim>\<open>stringifySurfsharkServers\<close> and
  \<^verbatim>\<open>surfsharkSubdomainToRegion\<close>. Go strings are byte strings, so they are
  \<^typ>\<open>string\<close> with the byte-wise lexicographic order of \<open>Char_ord\<close> and
  \<open>List_Lexorder\<close>, which is the order of Go's \<^verbatim>\<open><\<close> on strings. A Go map is an
  association list with pairwise distinct keys; the order of the list is the order in which one
  \<^verbatim>\<open>range\<close> over the map visits it, which Go leaves unspecified.
\<close>

subsection \<open>Data\<close>

text \<open>\<^verbatim>\<open>net.IP\<close> is a byte slice; only equality and the byte-wise order of addresses are used.\<close>

type_synonym ip = "nat list"

text \<open>\<^verbatim>\<open>models.SurfsharkServer\<close>, with the two fields the file sets.\<close>

record SurfsharkServer =
  Region :: string
  IPs :: "ip list"

text \<open>
  A Go \<^verbatim>\<open>error\<close> with its message; \<^verbatim>\<open>fmt.Errorf\<close> with \<^verbatim>\<open>%w\<close> keeps the
  wrapped error beside the formatted message.
\<close>

datatype error = Error string | WrapError string error

fun message :: "error \<Rightarrow> string" where
  "message (Error s) = s"
| "message (WrapError s e) = s"

type_synonym content = string

text \<open>What \<^verbatim>\<open>extractHostFromOVPN\<close> returns: host, warning, err.\<close>

type_synonym parsed = "string \<times> string \<times> error option"

text \<open>What \<^verbatim>\<open>parallelResolve\<close> returns: hostToIPs, warnings, err.\<close>

type_synonym resolved = "(string \<times> ip list) list \<times> string list \<times> error option"

text \<open>
  The collaborators of the file that live elsewhere are parameters. \<open>fetchAndExtractFiles\<close>
  is the outcome of the one download of the archive; \<open>parallelResolve\<close> takes the hosts, the
  repetition, the time between two tries (in nanoseconds) and \<^verbatim>\<open>failOnErr\<close>, the context and
  the lookup function being part of the environment; \<open>quote\<close> is the verb \<^verbatim>\<open>%q\<close> of
  \<^verbatim>\<open>fmt.Sprintf\<close>; \<open>serverString\<close> is the method \<^verbatim>\<open>String\<close> of a server.
\<close>

record collaborators =
  fetchAndExtractFiles :: "error + (string \<times> content) list"
  extractHostFromOVPN :: "content \<Rightarrow> parsed"
  parallelResolve :: "string list \<Rightarrow> nat \<Rightarrow> nat \<Rightarrow> bool \<Rightarrow> resolved"
  quote :: "string \<Rightarrow> string"
  serverString :: "SurfsharkServer \<Rightarrow> string"

record options =
  CLI :: bool
  Stdout :: bool

record surfshark =
  Timestamp :: "64 word"
  Servers :: "SurfsharkServer list"

text \<open>
  The fields of the updater that \<^verbatim>\<open>updateSurfshark\<close> reads or writes. \<open>logged\<close> holds
  the lines given to \<^verbatim>\<open>u.logger.Warn\<close>, \<open>printed\<close> those given to \<^verbatim>\<open>u.println\<close>,
  \<open>timeNow\<close> what \<^verbatim>\<open>u.timeNow().Unix()\<close> returns.
\<close>

record updater =
  opts :: options
  logged :: "string list"
  printed :: "string list"
  Surfshark :: surfshark
  timeNow :: "64 word"

subsection \<open>Library functions of Go\<close>

text \<open>\<^verbatim>\<open>strings.HasSuffix\<close> and \<^verbatim>\<open>strings.TrimSuffix\<close>.\<close>

definition HasSuffix :: "string \<Rightarrow> string \<Rightarrow> bool" where
  "HasSuffix s suffix \<longleftrightarrow>
     length s \<ge> length suffix \<and> drop (length s - length suffix) s = suffix"

definition TrimSuffix :: "string \<Rightarrow> string \<Rightarrow> string" where
  "TrimSuffix s suffix =
     (if HasSuffix s suffix then take (length s - length suffix) s else s)"

text \<open>
  Modelled from the spec: \<^verbatim>\<open>uniqueSortedIPs\<close> is not in this file; the specification says
  that the recorded addresses are the sorted set of the distinct addresses.
\<close>

definition uniqueSortedIPs :: "ip list \<Rightarrow> ip list" where
  "uniqueSortedIPs ips = sort (remdups ips)"

subsection \<open>The region table\<close>

definition surfsharkSubdomainToRegion :: "(string \<times> string) list" where
  "surfsharkSubdomainToRegion = [
    (''ae-dub'', ''United Arab Emirates''),
    (''al-tia'', ''Albania''),
    (''at-vie'', ''Austria''),
    (''au-adl'', ''Australia Adelaide''),
    (''au-bne'', ''Australia Brisbane''),
    (''au-mel'', ''Australia Melbourne''),
    (''au-per'', ''Australia Perth''),
    (''au-syd'', ''Australia Sydney''),
    (''au-us'', ''Australia US''),
    (''az-bak'', ''Azerbaijan''),
    (''ba-sjj'', ''Bosnia and Herzegovina''),
    (''be-bru'', ''Belgium''),
    (''bg-sof'', ''Bulgaria''),
    (''br-sao'', ''Brazil''),
    (''ca-mon'', ''Canada Montreal''),
    (''ca-tor'', ''Canada Toronto''),
    (''ca-us'', ''Canada US''),
    (''ca-van'', ''Canada Vancouver''),
    (''ch-zur'', ''Switzerland''),
    (''cl-san'', ''Chile''),
    (''co-bog'', ''Colombia''),
    (''cr-sjn'', ''Costa Rica''),
    (''cy-nic'', ''Cyprus''),
    (''cz-prg'', ''Czech Republic''),
    (''de-ber'', ''Germany Berlin''),
    (''de-fra'', ''Germany Frankfurt am Main''),
    (''de-fra-st001'', ''Germany Frankfurt am Main st001''),
    (''de-fra-st002'', ''Germany Frankfurt am Main st002''),
    (''de-fra-st003'', ''Germany Frankfurt am Main st003''),
    (''de-fra-st004'', ''Germany Frankfurt am Main st004''),
    (''de-fra-st005'', ''Germany Frankfurt am Main st005''),
    (''de-muc'', ''Germany Munich''),
    (''de-nue'', ''Germany Nuremberg''),
    (''de-sg'', ''Germany Singapour''),
    (''de-uk'', ''Germany UK''),
    (''dk-cph'', ''Denmark''),
    (''ee-tll'', ''Estonia''),
    (''es-bcn'', ''Spain Barcelona''),
    (''es-mad'', ''Spain Madrid''),
    (''es-vlc'', ''Spain Valencia''),
    (''fi-hel'', ''Finland''),
    (''fr-bod'', ''France Bordeaux''),
    (''fr-mrs'', ''France Marseilles''),
    (''fr-par'', ''France Paris''),
    (''fr-se'', ''France Sweden''),
    (''gr-ath'', ''Greece''),
    (''hk-hkg'', ''Hong Kong''),
    (''hr-zag'', ''Croatia''),
    (''hu-bud'', ''Hungary''),
    (''id-jak'', ''Indonesia''),
    (''ie-dub'', ''Ireland''),
    (''il-tlv'', ''Israel''),
    (''in-chn'', ''India Chennai''),
    (''in-idr'', ''India Indore''),
    (''in-mum'', ''India Mumbai''),
    (''in-uk'', ''India UK''),
    (''is-rkv'', ''Iceland''),
    (''it-mil'', ''Italy Milan''),
    (''it-rom'', ''Italy Rome''),
    (''jp-tok'', ''Japan Tokyo''),
    (''jp-tok-st001'', ''Japan Tokyo st001''),
    (''jp-tok-st002'', ''Japan Tokyo st002''),
    (''jp-tok-st003'', ''Japan Tokyo st003''),
    (''jp-tok-st004'', ''Japan Tokyo st004''),
    (''jp-tok-st005'', ''Japan Tokyo st005''),
    (''jp-tok-st006'', ''Japan Tokyo st006''),
    (''jp-tok-st007'', ''Japan Tokyo st007''),
    (''jp-tok-st008'', ''Japan Tokyo st008''),
    (''jp-tok-st009'', ''Japan Tokyo st009''),
    (''jp-tok-st010'', ''Japan Tokyo st010''),
    (''jp-tok-st011'', ''Japan Tokyo st011''),
    (''jp-tok-st012'', ''Japan Tokyo st012''),
    (''jp-tok-st013'', ''Japan Tokyo st013''),
    (''kr-seo'', ''Korea''),
    (''kz-ura'', ''Kazakhstan''),
    (''lu-ste'', ''Luxembourg''),
    (''lv-rig'', ''Latvia''),
    (''ly-tip'', ''Libya''),
    (''md-chi'', ''Moldova''),
    (''mk-skp'', ''North Macedonia''),
    (''my-kul'', ''Malaysia''),
    (''ng-lag'', ''Nigeria''),
    (''nl-ams'', ''Netherlands Amsterdam''),
    (''nl-ams-st001'', ''Netherlands Amsterdam st001''),
    (''nl-us'', ''Netherlands US''),
    (''no-osl'', ''Norway''),
    (''nz-akl'', ''New Zealand''),
    (''ph-mnl'', ''Philippines''),
    (''pl-gdn'', ''Poland Gdansk''),
    (''pl-waw'', ''Poland Warsaw''),
    (''pt-lis'', ''Portugal Lisbon''),
    (''pt-lou'', ''Portugal Loule''),
    (''pt-opo'', ''Portugal Porto''),
    (''py-asu'', ''Paraguay''),
    (''ro-buc'', ''Romania''),
    (''rs-beg'', ''Serbia''),
    (''ru-mos'', ''Russia Moscow''),
    (''ru-spt'', ''Russia St. Petersburg''),
    (''se-sto'', ''Sweden''),
    (''sg-hk'', ''Singapore Hong Kong''),
    (''sg-nl'', ''Singapore Netherlands''),
    (''sg-sng'', ''Singapore''),
    (''sg-in'', ''Singapore in''),
    (''sg-sng-st001'', ''Singapore st001''),
    (''sg-sng-st002'', ''Singapore st002''),
    (''sg-sng-st003'', ''Singapore st003''),
    (''sg-sng-st004'', ''Singapore st004''),
    (''sg-sng-mp001'', ''Singapore mp001''),
    (''si-lju'', ''Slovenia''),
    (''sk-bts'', ''Slovekia''),
    (''th-bkk'', ''Thailand''),
    (''tr-bur'', ''Turkey''),
    (''tw-tai'', ''Taiwan''),
    (''ua-iev'', ''Ukraine''),
    (''uk-de'', ''UK Germany''),
    (''uk-fr'', ''UK France''),
    (''uk-gla'', ''UK Glasgow''),
    (''uk-lon'', ''UK London''),
    (''uk-lon-mp001'', ''UK London mp001''),
    (''uk-lon-st001'', ''UK London st001''),
    (''uk-lon-st002'', ''UK London st002''),
    (''uk-lon-st003'', ''UK London st003''),
    (''uk-lon-st004'', ''UK London st004''),
    (''uk-lon-st005'', ''UK London st005''),
    (''uk-man'', ''UK Manchester''),
    (''us-atl'', ''US Atlanta''),
    (''us-bdn'', ''US Bend''),
    (''us-bos'', ''US Boston''),
    (''us-buf'', ''US Buffalo''),
    (''us-chi'', ''US Chicago''),
    (''us-clt'', ''US Charlotte''),
    (''us-dal'', ''US Dallas''),
    (''us-den'', ''US Denver''),
    (''us-dtw'', ''US Gahanna''),
    (''us-hou'', ''US Houston''),
    (''us-kan'', ''US Kansas City''),
    (''us-las'', ''US Las Vegas''),
    (''us-lax'', ''US Los Angeles''),
    (''us-ltm'', ''US Latham''),
    (''us-mia'', ''US Miami''),
    (''us-mnz'', ''US Maryland''),
    (''us-nl'', ''US Netherlands''),
    (''us-nyc'', ''US New York City''),
    (''us-nyc-mp001'', ''US New York City mp001''),
    (''us-nyc-st001'', ''US New York City st001''),
    (''us-nyc-st002'', ''US New York City st002''),
    (''us-nyc-st003'', ''US New York City st003''),
    (''us-nyc-st004'', ''US New York City st004''),
    (''us-nyc-st005'', ''US New York City st005''),
    (''us-orl'', ''US Orlando''),
    (''us-phx'', ''US Phoenix''),
    (''us-pt'', ''US Portugal''),
    (''us-sea'', ''US Seatle''),
    (''us-sfo'', ''US San Francisco''),
    (''us-slc'', ''US Salt Lake City''),
    (''us-stl'', ''US Saint Louis''),
    (''us-tpa'', ''US Tampa''),
    (''vn-hcm'', ''Vietnam''),
    (''za-jnb'', ''South Africa''),
    (''ar-bua'', ''Argentina Buenos Aires''),
    (''tr-ist'', ''Turkey Istanbul''),
    (''mx-mex'', ''Mexico City Mexico''),
    (''ca-tor-mp001'', ''Canada Toronto mp001''),
    (''de-fra-mp001'', ''Germany Frankfurt mp001''),
    (''nl-ams-mp001'', ''Netherlands Amsterdam mp001''),
    (''us-sfo-mp001'', ''US San Francisco mp001'')
  ]"

text \<open>Reading a Go map at a missing key gives the zero value, the empty string.\<close>

definition lookup :: "(string \<times> string) list \<Rightarrow> string \<Rightarrow> string" where
  "lookup mapping k = (case map_of mapping k of Some v \<Rightarrow> v | None \<Rightarrow> [])"

subsection \<open>findSurfsharkServersFromZip\<close>

definition repetition :: nat where
  "repetition = 20"

definition timeBetween :: nat where
  "timeBetween = 1000000000"

definition domainSuffix :: string where
  "domainSuffix = ''.prod.surfshark.com''"

text \<open>The body of the loop over the files of the archive (lines 106 to 120).\<close>

fun extractFile ::
  "(content \<Rightarrow> parsed) \<Rightarrow> string list \<times> string list \<Rightarrow> string \<times> content \<Rightarrow>
   string list \<times> string list" where
  "extractFile parse (hosts, warnings) (fileName, content) =
     (if HasSuffix fileName ''_tcp.ovpn'' then (hosts, warnings)
      else
        (case parse content of
           (host, warning, err) \<Rightarrow>
             (let warnings = (if length warning > 0 then warnings @ [warning] else warnings)
              in (case err of
                    Some e \<Rightarrow> (hosts, warnings @ [message e @ '' in '' @ fileName])
                  | None \<Rightarrow> (hosts @ [host], warnings)))))"

definition extractHosts ::
  "(content \<Rightarrow> parsed) \<Rightarrow> (string \<times> content) list \<Rightarrow> string list \<times> string list" where
  "extractHosts parse contents = foldl (extractFile parse) ([], []) contents"

text \<open>The body of the loop over the hosts resolved in the strict pass (lines 130 to 150).\<close>

type_synonym reconciled = "(string \<times> string) list \<times> SurfsharkServer list \<times> string list"

fun reconcileHost :: "(string \<Rightarrow> string) \<Rightarrow> reconciled \<Rightarrow> string \<times> ip list \<Rightarrow> reconciled" where
  "reconcileHost q (mapping, servers, warnings) (host, ips) =
     (if length ips = 0
      then (mapping, servers, warnings @ [''no IP address found for host '' @ q host])
      else
        (let subdomain = TrimSuffix host domainSuffix
         in (case map_of mapping subdomain of
               Some region \<Rightarrow>
                 (AList.delete subdomain mapping,
                  servers @ [\<lparr>Region = region, IPs = uniqueSortedIPs ips\<rparr>],
                  warnings)
             | None \<Rightarrow>
                 (mapping,
                  servers @ [\<lparr>Region = TrimSuffix host domainSuffix, IPs = uniqueSortedIPs ips\<rparr>],
                  warnings @ [''subdomain '' @ q subdomain @ '' not found in Surfshark mapping'']))))"

definition reconcileHosts ::
  "(string \<Rightarrow> string) \<Rightarrow> reconciled \<Rightarrow> (string \<times> ip list) list \<Rightarrow> reconciled" where
  "reconcileHosts q state hostToIPs = foldl (reconcileHost q) state hostToIPs"

text \<open>
  \<^verbatim>\<open>getRemainingServers\<close>: the hosts of the entries left in the table are resolved with
  \<^verbatim>\<open>failOnErr = false\<close>, the error of the call is dropped, and every entry of the result
  gives a server. The hosts are handed to the resolver in the order of the list, where Go
  takes an unspecified order; the resolver is a parameter and may answer any list of hosts in
  any way, so every run of the Go code is a run of the model for some resolver.
\<close>

definition remainingHosts :: "(string \<times> string) list \<Rightarrow> string list" where
  "remainingHosts mapping = map (\<lambda>(subdomain, region). subdomain @ domainSuffix) mapping"

definition getRemainingServers ::
  "collaborators \<Rightarrow> (string \<times> string) list \<Rightarrow> SurfsharkServer list \<times> string list" where
  "getRemainingServers env mapping =
     (case parallelResolve env (remainingHosts mapping) repetition timeBetween False of
        (hostToIPs, warnings, err) \<Rightarrow>
          (map (\<lambda>(host, ips).
                  \<lparr>Region = lookup mapping (TrimSuffix host domainSuffix),
                   IPs = uniqueSortedIPs ips\<rparr>) hostToIPs,
           warnings))"

text \<open>
  \<^verbatim>\<open>sort.Slice\<close> with the comparison of the regions is a sort by the key \<open>Region\<close>. It is
  not stable in Go; \<open>sort_key\<close> is one of the orders it may produce, and nothing proved below
  depends on the order of servers of one region.
\<close>

definition findSurfsharkServersFromZip ::
  "collaborators \<Rightarrow> SurfsharkServer list \<times> string list \<times> error option" where
  "findSurfsharkServersFromZip env =
     (case fetchAndExtractFiles env of
        Inl err \<Rightarrow> ([], [], Some err)
      | Inr contents \<Rightarrow>
          (case extractHosts (extractHostFromOVPN env) contents of
             (hosts, warnings) \<Rightarrow>
               (case parallelResolve env hosts repetition timeBetween True of
                  (hostToIPs, resolveWarnings, Some err) \<Rightarrow> ([], warnings, Some err)
                | (hostToIPs, resolveWarnings, None) \<Rightarrow>
                    (case reconcileHosts (quote env) (surfsharkSubdomainToRegion, [], warnings)
                            hostToIPs of
                       (mapping, servers, warnings) \<Rightarrow>
                         (case getRemainingServers env mapping of
                            (remainingServers, newWarnings) \<Rightarrow>
                              (sort_key Region (servers @ remainingServers),
                               warnings @ newWarnings,
                               None))))))"

subsection \<open>updateSurfshark\<close>

definition stringifySurfsharkServers ::
  "(SurfsharkServer \<Rightarrow> string) \<Rightarrow> SurfsharkServer list \<Rightarrow> string" where
  "stringifySurfsharkServers str servers =
     ''func SurfsharkServers() []models.SurfsharkServer {'' @ [CHR 0x0A] @
     [CHR 0x09] @ ''return []models.SurfsharkServer{'' @ [CHR 0x0A] @
     concat (map (\<lambda>server. [CHR 0x09, CHR 0x09] @ str server @ '','' @ [CHR 0x0A]) servers) @
     [CHR 0x09] @ ''}'' @ [CHR 0x0A] @
     ''}''"

definition updateSurfshark :: "collaborators \<Rightarrow> updater \<Rightarrow> error option \<times> updater" where
  "updateSurfshark env u =
     (case findSurfsharkServersFromZip env of
        (servers, warnings, err) \<Rightarrow>
          (let u = (if CLI (opts u)
                    then u\<lparr>logged := logged u @ map (\<lambda>warning. ''Surfshark: '' @ warning) warnings\<rparr>
                    else u)
           in (case err of
                 Some e \<Rightarrow>
                   (Some (WrapError (''cannot update Surfshark servers: '' @ message e) e), u)
               | None \<Rightarrow>
                   (let u = (if Stdout (opts u)
                             then u\<lparr>printed := printed u @
                                      [stringifySurfsharkServers (serverString env) servers]\<rparr>
                             else u)
                    in (None,
                        u\<lparr>Surfshark := (Surfshark u)\<lparr>Timestamp := timeNow u, Servers := servers\<rparr>\<rparr>)))))"

subsection \<open>Notions used in the statements\<close>

text \<open>
  The subdomains of the hosts for which the loop over the strict pass builds a server, in the
  order of the loop; it only abbreviates the statements below.
\<close>

abbreviation resolvedCodes :: "(string \<times> ip list) list \<Rightarrow> string list" where
  "resolvedCodes hostToIPs \<equiv>
     map (\<lambda>(host, ips). TrimSuffix host domainSuffix)
       (filter (\<lambda>(host, ips). ips \<noteq> []) hostToIPs)"

text \<open>The region the loop gives to a subdomain when it reads it in the table \<open>mapping\<close>.\<close>

abbreviation regionOf :: "(string \<times> string) list \<Rightarrow> string \<Rightarrow> string" where
  "regionOf mapping subdomain \<equiv>
     (case map_of mapping subdomain of Some region \<Rightarrow> region | None \<Rightarrow> subdomain)"

subsection \<open>Example runs\<close>

text \<open>
  A parser for the examples: the content is \<^verbatim>\<open>remote\<close> and the host, anything else has no
  host.
\<close>

definition exampleParse :: "content \<Rightarrow> parsed" where
  "exampleParse content =
     (if take 7 content = ''remote '' then (drop 7 content, [], None)
      else ([], [], Some (Error ''remote host not found'')))"

definition exampleQuote :: "string \<Rightarrow> string" where
  "exampleQuote s = [CHR 0x22] @ s @ [CHR 0x22]"

text \<open>
  An archive with both variants of a server of the table, a server the table does not know and
  a file without host; every archive host resolves, and in the second pass only
  \<^verbatim>\<open>al-tia\<close> resolves.
\<close>

definition exampleEnv :: collaborators where
  "exampleEnv = \<lparr>
     fetchAndExtractFiles = Inr [
       (''ae-dub_udp.ovpn'', ''remote ae-dub.prod.surfshark.com''),
       (''ae-dub_tcp.ovpn'', ''remote ae-dub.prod.surfshark.com''),
       (''zz-new_udp.ovpn'', ''remote zz-new.prod.surfshark.com''),
       (''broken_udp.ovpn'', ''client'')],
     extractHostFromOVPN = exampleParse,
     parallelResolve = (\<lambda>hosts rep tb failOnErr.
       if failOnErr then (map (\<lambda>host. (host, [[10, 0, 0, 2]])) (remdups hosts), [], None)
       else ([(''al-tia.prod.surfshark.com'', [[10, 0, 3, 5], [10, 0, 3, 4], [10, 0, 3, 5]])],
             [''no IP address found''], None)),
     quote = exampleQuote,
     serverString = Region\<rparr>"

text \<open>The same archive when one of its hosts does not resolve: the strict pass fails.\<close>

definition strictFailureEnv :: collaborators where
  "strictFailureEnv = exampleEnv\<lparr>
     parallelResolve := (\<lambda>hosts rep tb failOnErr.
       ([], [], Some (Error ''no IP address found for host zz-new.prod.surfshark.com'')))\<rparr>"

text \<open>
  An empty archive, and a second pass that is cancelled after one host resolved: the resolver
  returns what it has and the error of the context.
\<close>

definition cancelledEnv :: collaborators where
  "cancelledEnv = \<lparr>
     fetchAndExtractFiles = Inr [],
     extractHostFromOVPN = exampleParse,
     parallelResolve = (\<lambda>hosts rep tb failOnErr.
       if failOnErr then ([], [], None)
       else ([(''ae-dub.prod.surfshark.com'', [[10, 0, 0, 2]])], [],
             Some (Error ''context canceled''))),
     quote = exampleQuote,
     serverString = Region\<rparr>"

text \<open>
  An empty archive, and a second pass in which \<^verbatim>\<open>ae-dub\<close> has no address: the mapping of
  the resolver holds the host with no address, and a warning for it.
\<close>

definition unresolvedEnv :: collaborators where
  "unresolvedEnv = \<lparr>
     fetchAndExtractFiles = Inr [],
     extractHostFromOVPN = exampleParse,
     parallelResolve = (\<lambda>hosts rep tb failOnErr.
       if failOnErr then ([], [], None)
       else ([(''ae-dub.prod.surfshark.com'', []),
              (''al-tia.prod.surfshark.com'', [[10, 0, 3, 4]])],
             [''no IP address found for host '' @ exampleQuote ''ae-dub.prod.surfshark.com''],
             None)),
     quote = exampleQuote,
     serverString = Region\<rparr>"

text \<open>
  An archive with two files for a server the table does not know, one naming the host with the
  domain and one without; both names resolve.
\<close>

definition sameCodeEnv :: collaborators where
  "sameCodeEnv = \<lparr>
     fetchAndExtractFiles = Inr [
       (''zz-new_udp.ovpn'', ''remote zz-new.prod.surfshark.com''),
       (''zz-new-short_udp.ovpn'', ''remote zz-new'')],
     extractHostFromOVPN = exampleParse,
     parallelResolve = (\<lambda>hosts rep tb failOnErr.
       if failOnErr then (map (\<lambda>host. (host, [[10, 0, 0, 2]])) (remdups hosts), [], None)
       else ([], [], None)),
     quote = exampleQuote,
     serverString = Region\<rparr>"

text \<open>
  An archive with two files for a server of the table, one naming the host with the domain and
  one without; both names resolve, and the second pass resolves nothing.
\<close>

definition repeatedCodeEnv :: collaborators where
  "repeatedCodeEnv = \<lparr>
     fetchAndExtractFiles = Inr [
       (''ae-dub_udp.ovpn'', ''remote ae-dub.prod.surfshark.com''),
       (''ae-dub-short_udp.ovpn'', ''remote ae-dub'')],
     extractHostFromOVPN = exampleParse,
     parallelResolve = (\<lambda>hosts rep tb failOnErr.
       if failOnErr then (map (\<lambda>host. (host, [[10, 0, 0, 2]])) (remdups hosts), [], None)
       else ([], [], None)),
     quote = exampleQuote,
     serverString = Region\<rparr>"

definition exampleUpdater :: updater where
  "exampleUpdater = \<lparr>
     opts = \<lparr>CLI = True, Stdout = False\<rparr>,
     logged = [],
     printed = [],
     Surfshark = \<lparr>Timestamp = 1600000000,
                  Servers = [\<lparr>Region = ''Albania'', IPs = [[10, 0, 3, 4]]\<rparr>]\<rparr>,
     timeNow = 1700000000\<rparr>"

section \<open>Properties\<close>

subsection \<open>Suffixes\<close>

lemma HasSuffix_append_same_length:
  "length a = length b \<Longrightarrow> HasSuffix (n @ a) b \<longleftrightarrow> a = b"
  by (simp add: HasSuffix_def)

lemma TrimSuffix_append: "TrimSuffix (s @ suffix) suffix = s"
  by (simp add: TrimSuffix_def HasSuffix_def)

subsection \<open>The extraction loop\<close>

lemma extractFile_acc:
  "extractFile p (hs, ws) x =
     (hs @ fst (extractFile p ([], []) x), ws @ snd (extractFile p ([], []) x))"
  by (cases x) (simp add: Let_def split: prod.splits option.splits)

lemma foldl_extractFile_acc:
  "foldl (extractFile p) (hs, ws) cs =
     (hs @ fst (foldl (extractFile p) ([], []) cs), ws @ snd (foldl (extractFile p) ([], []) cs))"
proof (induction cs arbitrary: hs ws)
  case Nil
  show ?case by simp
next
  case (Cons x cs)
  obtain h1 w1 where x: "extractFile p ([], []) x = (h1, w1)"
    by (cases "extractFile p ([], []) x")
  have step: "extractFile p (hs, ws) x = (hs @ h1, ws @ w1)"
    using extractFile_acc [of p hs ws x] x by simp
  show ?case
    using Cons.IH [of "hs @ h1" "ws @ w1"] Cons.IH [of h1 w1] by (simp add: step x)
qed

lemma extractHosts_append:
  "extractHosts p (xs @ ys) =
     (fst (extractHosts p xs) @ fst (extractHosts p ys),
      snd (extractHosts p xs) @ snd (extractHosts p ys))"
  unfolding extractHosts_def
  using foldl_extractFile_acc [of p "fst (foldl (extractFile p) ([], []) xs)"
      "snd (foldl (extractFile p) ([], []) xs)" ys]
  by simp

lemma extractHosts_Cons:
  "extractHosts p (x # ys) =
     (fst (extractFile p ([], []) x) @ fst (extractHosts p ys),
      snd (extractFile p ([], []) x) @ snd (extractHosts p ys))"
  using extractHosts_append [of p "[x]" ys] by (simp add: extractHosts_def)

lemma extractHosts_Nil: "extractHosts p [] = ([], [])"
  by (simp add: extractHosts_def)


subsection \<open>The results of findSurfsharkServersFromZip and updateSurfshark\<close>

lemma find_fetch_error:
  "fetchAndExtractFiles env = Inl e \<Longrightarrow> findSurfsharkServersFromZip env = ([], [], Some e)"
  by (simp add: findSurfsharkServersFromZip_def)

lemma find_resolve_error:
  assumes "fetchAndExtractFiles env = Inr contents"
    and "parallelResolve env (fst (extractHosts (extractHostFromOVPN env) contents))
           repetition timeBetween True = (hostToIPs, rw, Some e)"
  shows "findSurfsharkServersFromZip env =
           ([], snd (extractHosts (extractHostFromOVPN env) contents), Some e)"
proof -
  obtain hosts ws where "extractHosts (extractHostFromOVPN env) contents = (hosts, ws)"
    by (cases "extractHosts (extractHostFromOVPN env) contents")
  with assms show ?thesis
    by (simp add: findSurfsharkServersFromZip_def)
qed

lemma find_success:
  assumes "fetchAndExtractFiles env = Inr contents"
    and "parallelResolve env (fst (extractHosts (extractHostFromOVPN env) contents))
           repetition timeBetween True = (hostToIPs, rw, None)"
    and "reconcileHosts (quote env)
           (surfsharkSubdomainToRegion, [], snd (extractHosts (extractHostFromOVPN env) contents))
           hostToIPs = (mapping, servers, warnings)"
    and "parallelResolve env (remainingHosts mapping) repetition timeBetween False =
           (hostToIPs', warnings', e')"
  shows "findSurfsharkServersFromZip env =
           (sort_key Region
              (servers @
               map (\<lambda>(host, ips).
                      \<lparr>Region = lookup mapping (TrimSuffix host domainSuffix),
                       IPs = uniqueSortedIPs ips\<rparr>) hostToIPs'),
            warnings @ warnings', None)"
proof -
  obtain hosts ws where "extractHosts (extractHostFromOVPN env) contents = (hosts, ws)"
    by (cases "extractHosts (extractHostFromOVPN env) contents")
  with assms show ?thesis
    by (simp add: findSurfsharkServersFromZip_def getRemainingServers_def)
qed

lemma find_sorted: "sorted (map Region (fst (findSurfsharkServersFromZip env)))"
  by (simp add: findSurfsharkServersFromZip_def split: sum.splits prod.splits option.splits)

lemma find_error_source:
  "snd (snd (findSurfsharkServersFromZip env)) =
     (case fetchAndExtractFiles env of
        Inl e \<Rightarrow> Some e
      | Inr contents \<Rightarrow>
          snd (snd (parallelResolve env (fst (extractHosts (extractHostFromOVPN env) contents))
                      repetition timeBetween True)))"
  by (simp add: findSurfsharkServersFromZip_def split: sum.splits prod.splits option.splits)

lemma update_failure:
  assumes "findSurfsharkServersFromZip env = (servers, warnings, Some e)"
  shows "updateSurfshark env u =
           (Some (WrapError (''cannot update Surfshark servers: '' @ message e) e),
            if CLI (opts u)
            then u\<lparr>logged := logged u @ map (\<lambda>warning. ''Surfshark: '' @ warning) warnings\<rparr>
            else u)"
  using assms by (simp add: updateSurfshark_def Let_def)

lemma update_success:
  assumes "findSurfsharkServersFromZip env = (servers, warnings, None)"
  shows "updateSurfshark env u =
           (None,
            u\<lparr>logged := logged u @
                 (if CLI (opts u) then map (\<lambda>warning. ''Surfshark: '' @ warning) warnings else []),
              printed := printed u @
                 (if Stdout (opts u)
                  then [stringifySurfsharkServers (serverString env) servers] else []),
              Surfshark := \<lparr>Timestamp = timeNow u, Servers = servers\<rparr>\<rparr>)"
  using assms by (simp add: updateSurfshark_def Let_def)

subsection \<open>The region table\<close>

text \<open>
  No subdomain and no region occurs twice in the table. Sorting a list and comparing its
  neighbours needs far fewer comparisons than comparing all pairs.
\<close>

lemma distinct_by_sorting:
  fixes xs :: "string list"
  assumes "successively (<) (sort xs)"
  shows "distinct xs"
proof -
  have "sorted_wrt (<) (sort xs)"
    using assms by (simp add: successively_conv_sorted_wrt)
  then have "distinct (sort xs)"
    by (simp add: strict_sorted_iff)
  then show ?thesis by simp
qed

lemma table_keys_distinct: "distinct (map fst surfsharkSubdomainToRegion)"
proof -
  have "successively (<) (sort (map fst surfsharkSubdomainToRegion))"
    unfolding surfsharkSubdomainToRegion_def by code_simp
  then show ?thesis by (rule distinct_by_sorting)
qed

lemma table_regions_distinct: "distinct (map snd surfsharkSubdomainToRegion)"
proof -
  have "successively (<) (sort (map snd surfsharkSubdomainToRegion))"
    unfolding surfsharkSubdomainToRegion_def by code_simp
  then show ?thesis by (rule distinct_by_sorting)
qed

lemma table_ae_dub: "map_of surfsharkSubdomainToRegion ''ae-dub'' = Some ''United Arab Emirates''"
  by code_simp
lemma table_al_tia: "map_of surfsharkSubdomainToRegion ''al-tia'' = Some ''Albania''"
  by code_simp
lemma table_zz_new: "map_of surfsharkSubdomainToRegion ''zz-new'' = None"
proof -
  have "''zz-new'' \<notin> set (map fst surfsharkSubdomainToRegion)"
    unfolding surfsharkSubdomainToRegion_def by simp
  then show ?thesis by (simp add: map_of_eq_None_iff)
qed


lemma table_zz_new_region: "''zz-new'' \<notin> snd ` set surfsharkSubdomainToRegion"
proof -
  have "''zz-new'' \<notin> set (map snd surfsharkSubdomainToRegion)"
    unfolding surfsharkSubdomainToRegion_def by simp
  then show ?thesis by simp
qed

subsection \<open>The example run\<close>

lemma example_extract:
  "extractHosts exampleParse [
       (''ae-dub_udp.ovpn'', ''remote ae-dub.prod.surfshark.com''),
       (''ae-dub_tcp.ovpn'', ''remote ae-dub.prod.surfshark.com''),
       (''zz-new_udp.ovpn'', ''remote zz-new.prod.surfshark.com''),
       (''broken_udp.ovpn'', ''client'')] =
     ([''ae-dub.prod.surfshark.com'', ''zz-new.prod.surfshark.com''],
      [''remote host not found in broken_udp.ovpn''])"
  by (simp add: extractHosts_def exampleParse_def HasSuffix_def Let_def)

lemma example_reconcile:
  "reconcileHosts exampleQuote
     (surfsharkSubdomainToRegion, [], [''remote host not found in broken_udp.ovpn''])
     [(''ae-dub.prod.surfshark.com'', [[10, 0, 0, 2]]),
      (''zz-new.prod.surfshark.com'', [[10, 0, 0, 2]])] =
   (AList.delete ''ae-dub'' surfsharkSubdomainToRegion,
    [\<lparr>Region = ''United Arab Emirates'', IPs = [[10, 0, 0, 2]]\<rparr>,
     \<lparr>Region = ''zz-new'', IPs = [[10, 0, 0, 2]]\<rparr>],
    [''remote host not found in broken_udp.ovpn'',
     ''subdomain '' @ exampleQuote ''zz-new'' @ '' not found in Surfshark mapping''])"
  by (simp add: reconcileHosts_def TrimSuffix_def HasSuffix_def domainSuffix_def
      uniqueSortedIPs_def table_ae_dub table_zz_new Let_def)

lemma example_sort:
  "sort_key Region
     [\<lparr>Region = ''United Arab Emirates'', IPs = [[10, 0, 0, 2]]\<rparr>,
      \<lparr>Region = ''zz-new'', IPs = [[10, 0, 0, 2]]\<rparr>,
      \<lparr>Region = ''Albania'', IPs = [[10, 0, 3, 4], [10, 0, 3, 5]]\<rparr>] =
     [\<lparr>Region = ''Albania'', IPs = [[10, 0, 3, 4], [10, 0, 3, 5]]\<rparr>,
      \<lparr>Region = ''United Arab Emirates'', IPs = [[10, 0, 0, 2]]\<rparr>,
      \<lparr>Region = ''zz-new'', IPs = [[10, 0, 0, 2]]\<rparr>]"
  by code_simp

lemma example_run:
  "findSurfsharkServersFromZip exampleEnv =
     ([\<lparr>Region = ''Albania'', IPs = [[10, 0, 3, 4], [10, 0, 3, 5]]\<rparr>,
       \<lparr>Region = ''United Arab Emirates'', IPs = [[10, 0, 0, 2]]\<rparr>,
       \<lparr>Region = ''zz-new'', IPs = [[10, 0, 0, 2]]\<rparr>],
      [''remote host not found in broken_udp.ovpn'',
       ''subdomain '' @ exampleQuote ''zz-new'' @ '' not found in Surfshark mapping'',
       ''no IP address found''],
      None)"
proof -
  have fetch: "fetchAndExtractFiles exampleEnv = Inr [
       (''ae-dub_udp.ovpn'', ''remote ae-dub.prod.surfshark.com''),
       (''ae-dub_tcp.ovpn'', ''remote ae-dub.prod.surfshark.com''),
       (''zz-new_udp.ovpn'', ''remote zz-new.prod.surfshark.com''),
       (''broken_udp.ovpn'', ''client'')]"
    by (simp add: exampleEnv_def)
  have p: "extractHostFromOVPN exampleEnv = exampleParse" and q: "quote exampleEnv = exampleQuote"
    by (simp_all add: exampleEnv_def)
  have r1: "parallelResolve exampleEnv
      (fst (extractHosts (extractHostFromOVPN exampleEnv) [
       (''ae-dub_udp.ovpn'', ''remote ae-dub.prod.surfshark.com''),
       (''ae-dub_tcp.ovpn'', ''remote ae-dub.prod.surfshark.com''),
       (''zz-new_udp.ovpn'', ''remote zz-new.prod.surfshark.com''),
       (''broken_udp.ovpn'', ''client'')])) repetition timeBetween True =
      ([(''ae-dub.prod.surfshark.com'', [[10, 0, 0, 2]]),
        (''zz-new.prod.surfshark.com'', [[10, 0, 0, 2]])], [], None)"
    unfolding p example_extract by (simp add: exampleEnv_def)
  have r2: "parallelResolve exampleEnv
      (remainingHosts (AList.delete ''ae-dub'' surfsharkSubdomainToRegion))
      repetition timeBetween False =
      ([(''al-tia.prod.surfshark.com'', [[10, 0, 3, 5], [10, 0, 3, 4], [10, 0, 3, 5]])],
       [''no IP address found''], None)"
    by (simp add: exampleEnv_def)
  have rec: "reconcileHosts (quote exampleEnv)
     (surfsharkSubdomainToRegion, [], snd (extractHosts (extractHostFromOVPN exampleEnv) [
       (''ae-dub_udp.ovpn'', ''remote ae-dub.prod.surfshark.com''),
       (''ae-dub_tcp.ovpn'', ''remote ae-dub.prod.surfshark.com''),
       (''zz-new_udp.ovpn'', ''remote zz-new.prod.surfshark.com''),
       (''broken_udp.ovpn'', ''client'')]))
     [(''ae-dub.prod.surfshark.com'', [[10, 0, 0, 2]]),
      (''zz-new.prod.surfshark.com'', [[10, 0, 0, 2]])] =
   (AList.delete ''ae-dub'' surfsharkSubdomainToRegion,
    [\<lparr>Region = ''United Arab Emirates'', IPs = [[10, 0, 0, 2]]\<rparr>,
     \<lparr>Region = ''zz-new'', IPs = [[10, 0, 0, 2]]\<rparr>],
    [''remote host not found in broken_udp.ovpn'',
     ''subdomain '' @ exampleQuote ''zz-new'' @ '' not found in Surfshark mapping''])"
    unfolding p q example_extract using example_reconcile by simp
  have look: "lookup (AList.delete ''ae-dub'' surfsharkSubdomainToRegion)
      (TrimSuffix ''al-tia.prod.surfshark.com'' domainSuffix) = ''Albania''"
    by (simp add: lookup_def TrimSuffix_def HasSuffix_def domainSuffix_def table_al_tia)
  have ips: "uniqueSortedIPs [[10, 0, 3, 5], [10, 0, 3, 4], [10, 0, 3, 5]] = [[10, 0, 3, 4], [10, 0, 3, 5]]"
    unfolding uniqueSortedIPs_def by code_simp
  show ?thesis
    unfolding find_success [OF fetch r1 rec r2]
    by (simp add: look ips example_sort del: sort_key_simps)
qed


lemma uniqueSortedIPs_Nil: "uniqueSortedIPs [] = []"
  by (simp add: uniqueSortedIPs_def)

lemma uniqueSortedIPs_single: "uniqueSortedIPs [ip] = [ip]"
  by (simp add: uniqueSortedIPs_def)

lemma strictFailure_run:
  "findSurfsharkServersFromZip strictFailureEnv =
     ([], [''remote host not found in broken_udp.ovpn''],
      Some (Error ''no IP address found for host zz-new.prod.surfshark.com''))"
proof -
  have fetch: "fetchAndExtractFiles strictFailureEnv = Inr [
       (''ae-dub_udp.ovpn'', ''remote ae-dub.prod.surfshark.com''),
       (''ae-dub_tcp.ovpn'', ''remote ae-dub.prod.surfshark.com''),
       (''zz-new_udp.ovpn'', ''remote zz-new.prod.surfshark.com''),
       (''broken_udp.ovpn'', ''client'')]"
    by (simp add: strictFailureEnv_def exampleEnv_def)
  have p: "extractHostFromOVPN strictFailureEnv = exampleParse"
    by (simp add: strictFailureEnv_def exampleEnv_def)
  have r1: "parallelResolve strictFailureEnv
      (fst (extractHosts (extractHostFromOVPN strictFailureEnv) [
       (''ae-dub_udp.ovpn'', ''remote ae-dub.prod.surfshark.com''),
       (''ae-dub_tcp.ovpn'', ''remote ae-dub.prod.surfshark.com''),
       (''zz-new_udp.ovpn'', ''remote zz-new.prod.surfshark.com''),
       (''broken_udp.ovpn'', ''client'')])) repetition timeBetween True =
      ([], [], Some (Error ''no IP address found for host zz-new.prod.surfshark.com''))"
    by (simp add: strictFailureEnv_def)
  show ?thesis
    unfolding find_resolve_error [OF fetch r1] p example_extract by simp
qed

lemma empty_archive_reconcile:
  "reconcileHosts q (surfsharkSubdomainToRegion, [], snd (extractHosts p [])) [] =
     (surfsharkSubdomainToRegion, [], [])"
  by (simp add: reconcileHosts_def extractHosts_def)

lemma cancelled_run:
  "findSurfsharkServersFromZip cancelledEnv =
     ([\<lparr>Region = ''United Arab Emirates'', IPs = [[10, 0, 0, 2]]\<rparr>], [], None)"
proof -
  have fetch: "fetchAndExtractFiles cancelledEnv = Inr []"
    by (simp add: cancelledEnv_def)
  have r1: "parallelResolve cancelledEnv
      (fst (extractHosts (extractHostFromOVPN cancelledEnv) [])) repetition timeBetween True =
      ([], [], None)"
    by (simp add: cancelledEnv_def)
  have r2: "parallelResolve cancelledEnv (remainingHosts surfsharkSubdomainToRegion)
      repetition timeBetween False =
      ([(''ae-dub.prod.surfshark.com'', [[10, 0, 0, 2]])], [], Some (Error ''context canceled''))"
    by (simp add: cancelledEnv_def)
  have look: "lookup surfsharkSubdomainToRegion
      (TrimSuffix ''ae-dub.prod.surfshark.com'' domainSuffix) = ''United Arab Emirates''"
    by (simp add: lookup_def TrimSuffix_def HasSuffix_def domainSuffix_def table_ae_dub)
  show ?thesis
    unfolding find_success [OF fetch r1 empty_archive_reconcile r2]
    by (simp add: look uniqueSortedIPs_def)
qed

lemma unresolved_remaining:
  "getRemainingServers unresolvedEnv surfsharkSubdomainToRegion =
     ([\<lparr>Region = ''United Arab Emirates'', IPs = []\<rparr>,
       \<lparr>Region = ''Albania'', IPs = [[10, 0, 3, 4]]\<rparr>],
      [''no IP address found for host '' @ exampleQuote ''ae-dub.prod.surfshark.com''])"
  by (simp add: getRemainingServers_def unresolvedEnv_def lookup_def TrimSuffix_def
      HasSuffix_def domainSuffix_def table_ae_dub table_al_tia uniqueSortedIPs_def)

lemma unresolved_sort:
  "sort_key Region
     [\<lparr>Region = ''United Arab Emirates'', IPs = []\<rparr>,
      \<lparr>Region = ''Albania'', IPs = [[10, 0, 3, 4]]\<rparr>] =
     [\<lparr>Region = ''Albania'', IPs = [[10, 0, 3, 4]]\<rparr>,
      \<lparr>Region = ''United Arab Emirates'', IPs = []\<rparr>]"
  by code_simp

lemma unresolved_run:
  "findSurfsharkServersFromZip unresolvedEnv =
     ([\<lparr>Region = ''Albania'', IPs = [[10, 0, 3, 4]]\<rparr>,
       \<lparr>Region = ''United Arab Emirates'', IPs = []\<rparr>],
      [''no IP address found for host '' @ exampleQuote ''ae-dub.prod.surfshark.com''],
      None)"
proof -
  have fetch: "fetchAndExtractFiles unresolvedEnv = Inr []"
    by (simp add: unresolvedEnv_def)
  have r1: "parallelResolve unresolvedEnv
      (fst (extractHosts (extractHostFromOVPN unresolvedEnv) [])) repetition timeBetween True =
      ([], [], None)"
    by (simp add: unresolvedEnv_def)
  have r2: "parallelResolve unresolvedEnv (remainingHosts surfsharkSubdomainToRegion)
      repetition timeBetween False =
      ([(''ae-dub.prod.surfshark.com'', []),
        (''al-tia.prod.surfshark.com'', [[10, 0, 3, 4]])],
       [''no IP address found for host '' @ exampleQuote ''ae-dub.prod.surfshark.com''],
       None)"
    by (simp add: unresolvedEnv_def)
  have look: "lookup surfsharkSubdomainToRegion
      (TrimSuffix ''ae-dub.prod.surfshark.com'' domainSuffix) = ''United Arab Emirates''"
    "lookup surfsharkSubdomainToRegion
      (TrimSuffix ''al-tia.prod.surfshark.com'' domainSuffix) = ''Albania''"
    by (simp_all add: lookup_def TrimSuffix_def HasSuffix_def domainSuffix_def
        table_ae_dub table_al_tia)
  show ?thesis
    unfolding find_success [OF fetch r1 empty_archive_reconcile r2]
    by (simp add: look uniqueSortedIPs_Nil uniqueSortedIPs_single unresolved_sort del: sort_key_simps)
qed

lemma sameCode_extract:
  "extractHosts exampleParse [
       (''zz-new_udp.ovpn'', ''remote zz-new.prod.surfshark.com''),
       (''zz-new-short_udp.ovpn'', ''remote zz-new'')] =
     ([''zz-new.prod.surfshark.com'', ''zz-new''], [])"
  by (simp add: extractHosts_def exampleParse_def HasSuffix_def Let_def)

lemma sameCode_reconcile:
  "reconcileHosts exampleQuote (surfsharkSubdomainToRegion, [], [])
     [(''zz-new.prod.surfshark.com'', [[10, 0, 0, 2]]), (''zz-new'', [[10, 0, 0, 2]])] =
   (surfsharkSubdomainToRegion,
    [\<lparr>Region = ''zz-new'', IPs = [[10, 0, 0, 2]]\<rparr>,
     \<lparr>Region = ''zz-new'', IPs = [[10, 0, 0, 2]]\<rparr>],
    [''subdomain '' @ exampleQuote ''zz-new'' @ '' not found in Surfshark mapping'',
     ''subdomain '' @ exampleQuote ''zz-new'' @ '' not found in Surfshark mapping''])"
  by (simp add: reconcileHosts_def TrimSuffix_def HasSuffix_def domainSuffix_def
      uniqueSortedIPs_def table_zz_new Let_def)

lemma sameCode_run:
  "findSurfsharkServersFromZip sameCodeEnv =
     ([\<lparr>Region = ''zz-new'', IPs = [[10, 0, 0, 2]]\<rparr>,
       \<lparr>Region = ''zz-new'', IPs = [[10, 0, 0, 2]]\<rparr>],
      [''subdomain '' @ exampleQuote ''zz-new'' @ '' not found in Surfshark mapping'',
       ''subdomain '' @ exampleQuote ''zz-new'' @ '' not found in Surfshark mapping''],
      None)"
proof -
  have fetch: "fetchAndExtractFiles sameCodeEnv = Inr [
       (''zz-new_udp.ovpn'', ''remote zz-new.prod.surfshark.com''),
       (''zz-new-short_udp.ovpn'', ''remote zz-new'')]"
    by (simp add: sameCodeEnv_def)
  have p: "extractHostFromOVPN sameCodeEnv = exampleParse"
    and q: "quote sameCodeEnv = exampleQuote"
    by (simp_all add: sameCodeEnv_def)
  have r1: "parallelResolve sameCodeEnv
      (fst (extractHosts (extractHostFromOVPN sameCodeEnv) [
       (''zz-new_udp.ovpn'', ''remote zz-new.prod.surfshark.com''),
       (''zz-new-short_udp.ovpn'', ''remote zz-new'')])) repetition timeBetween True =
      ([(''zz-new.prod.surfshark.com'', [[10, 0, 0, 2]]), (''zz-new'', [[10, 0, 0, 2]])],
       [], None)"
    unfolding p sameCode_extract by (simp add: sameCodeEnv_def)
  have rec: "reconcileHosts (quote sameCodeEnv)
      (surfsharkSubdomainToRegion, [],
       snd (extractHosts (extractHostFromOVPN sameCodeEnv) [
         (''zz-new_udp.ovpn'', ''remote zz-new.prod.surfshark.com''),
         (''zz-new-short_udp.ovpn'', ''remote zz-new'')]))
      [(''zz-new.prod.surfshark.com'', [[10, 0, 0, 2]]), (''zz-new'', [[10, 0, 0, 2]])] =
     (surfsharkSubdomainToRegion,
      [\<lparr>Region = ''zz-new'', IPs = [[10, 0, 0, 2]]\<rparr>,
       \<lparr>Region = ''zz-new'', IPs = [[10, 0, 0, 2]]\<rparr>],
      [''subdomain '' @ exampleQuote ''zz-new'' @ '' not found in Surfshark mapping'',
       ''subdomain '' @ exampleQuote ''zz-new'' @ '' not found in Surfshark mapping''])"
    unfolding p q sameCode_extract using sameCode_reconcile by simp
  have r2: "parallelResolve sameCodeEnv (remainingHosts surfsharkSubdomainToRegion)
      repetition timeBetween False = ([], [], None)"
    by (simp add: sameCodeEnv_def)
  show ?thesis
    unfolding find_success [OF fetch r1 rec r2] by simp
qed

subsection \<open>The loop over the hosts of the strict pass\<close>

lemma map_of_filter_keys:
  "k \<notin> C \<Longrightarrow> map_of (filter (\<lambda>(k', v). k' \<notin> C) m) k = map_of m k"
  by (induction m) auto

lemma map_of_filter_keys_removed:
  "k \<in> C \<Longrightarrow> map_of (filter (\<lambda>(k', v). k' \<notin> C) m) k = None"
  by (induction m) auto

lemma reconcileHost_no_address:
  "reconcileHost q (m, s, w) (host, []) =
     (m, s, w @ [''no IP address found for host '' @ q host])"
  by simp

lemma reconcileHost_unmapped:
  assumes "ips \<noteq> []" and "map_of m (TrimSuffix host domainSuffix) = None"
  shows "reconcileHost q (m, s, w) (host, ips) =
           (m,
            s @ [\<lparr>Region = TrimSuffix host domainSuffix, IPs = uniqueSortedIPs ips\<rparr>],
            w @ [''subdomain '' @ q (TrimSuffix host domainSuffix) @
                 '' not found in Surfshark mapping''])"
  using assms by (simp add: Let_def)

lemma reconcileHost_mapped:
  assumes "ips \<noteq> []" and "map_of m (TrimSuffix host domainSuffix) = Some region"
  shows "reconcileHost q (m, s, w) (host, ips) =
           (AList.delete (TrimSuffix host domainSuffix) m,
            s @ [\<lparr>Region = region, IPs = uniqueSortedIPs ips\<rparr>],
            w)"
  using assms by (simp add: Let_def)

lemma reconcileHosts_Nil: "reconcileHosts q st [] = st"
  by (simp add: reconcileHosts_def)

lemma reconcileHosts_Cons:
  "reconcileHosts q st (x # xs) = reconcileHosts q (reconcileHost q st x) xs"
  by (simp add: reconcileHosts_def)

lemma reconcileHosts_append:
  "reconcileHosts q st (xs @ ys) = reconcileHosts q (reconcileHosts q st xs) ys"
  by (simp add: reconcileHosts_def)

lemma reconcile_mapping:
  "fst (reconcileHosts q (m, s, w) H) = filter (\<lambda>(k, v). k \<notin> set (resolvedCodes H)) m"
proof (induction H arbitrary: m s w)
  case Nil
  show ?case by (simp add: reconcileHosts_Nil)
next
  case (Cons x H)
  obtain host ips where x: "x = (host, ips)" by (cases x)
  let ?c = "TrimSuffix host domainSuffix"
  show ?case
  proof (cases "ips = []")
    case True
    then show ?thesis
      using Cons.IH by (simp add: x reconcileHosts_Cons)
  next
    case False
    show ?thesis
    proof (cases "map_of m ?c")
      case None
      then have "?c \<notin> fst ` set m"
        by (simp add: map_of_eq_None_iff)
      then have "filter (\<lambda>(k, v). k \<notin> set (resolvedCodes H)) m =
          filter (\<lambda>(k, v). k \<noteq> ?c \<and> k \<notin> set (resolvedCodes H)) m"
        by (intro filter_cong) force+
      then show ?thesis
        using False None Cons.IH [of m]
        by (simp add: x reconcileHosts_Cons reconcileHost_unmapped del: reconcileHost.simps)
    next
      case (Some region)
      have "filter (\<lambda>(k, v). k \<notin> set (resolvedCodes H)) (AList.delete ?c m) =
          filter (\<lambda>(k, v). k \<noteq> ?c \<and> k \<notin> set (resolvedCodes H)) m"
        by (simp add: AList.delete_eq) (intro filter_cong, auto)
      then show ?thesis
        using False Some Cons.IH [of "AList.delete ?c m"]
        by (simp add: x reconcileHosts_Cons reconcileHost_mapped del: reconcileHost.simps)
    qed
  qed
qed

lemma reconcile_regions:
  assumes "distinct (resolvedCodes H)"
  shows "map Region (fst (snd (reconcileHosts q (m, s, w) H))) =
           map Region s @ map (regionOf m) (resolvedCodes H)"
  using assms
proof (induction H arbitrary: m s w)
  case Nil
  show ?case by (simp add: reconcileHosts_Nil)
next
  case (Cons x H)
  obtain host ips where x: "x = (host, ips)" by (cases x)
  let ?c = "TrimSuffix host domainSuffix"
  show ?case
  proof (cases "ips = []")
    case True
    then show ?thesis
      using Cons.IH Cons.prems by (simp add: x reconcileHosts_Cons)
  next
    case False
    from Cons.prems False have notin: "?c \<notin> set (resolvedCodes H)"
      and dist: "distinct (resolvedCodes H)"
      by (simp_all add: x)
    show ?thesis
    proof (cases "map_of m ?c")
      case None
      then show ?thesis
        using False Cons.IH [OF dist, of m]
        by (simp add: x reconcileHosts_Cons reconcileHost_unmapped del: reconcileHost.simps)
    next
      case (Some region)
      have "regionOf (AList.delete ?c m) c' = regionOf m c'"
        if "c' \<in> set (resolvedCodes H)" for c'
      proof -
        from that notin have "c' \<noteq> ?c" by blast
        then show ?thesis by (simp add: AList.delete_conv)
      qed
      then have "map (regionOf (AList.delete ?c m)) (resolvedCodes H) =
          map (regionOf m) (resolvedCodes H)"
        by (intro map_cong refl)
      then show ?thesis
        using False Some Cons.IH [OF dist, of "AList.delete ?c m"]
        by (simp add: x reconcileHosts_Cons reconcileHost_mapped del: reconcileHost.simps)
    qed
  qed
qed

lemma reconcileHost_grows:
  "\<exists>s' w'. snd (reconcileHost q (m, s, w) x) = (s @ s', w @ w')"
  by (cases x) (simp add: Let_def split: option.splits)

lemma reconcile_grows:
  "\<exists>s' w'. snd (reconcileHosts q (m, s, w) H) = (s @ s', w @ w')"
proof (induction H arbitrary: m s w)
  case Nil
  show ?case by (simp add: reconcileHosts_Nil)
next
  case (Cons x H)
  obtain m1 s1 w1 where st: "reconcileHost q (m, s, w) x = (m1, s @ s1, w @ w1)"
    using reconcileHost_grows [of q m s w x]
    by (cases "reconcileHost q (m, s, w) x") auto
  obtain s2 w2 where "snd (reconcileHosts q (m1, s @ s1, w @ w1) H) = ((s @ s1) @ s2, (w @ w1) @ w2)"
    using Cons.IH [of m1 "s @ s1" "w @ w1"] by blast
  then show ?case
    by (simp add: reconcileHosts_Cons st)
qed

lemma distinct_map_sort_key:
  "distinct (map f (sort_key f xs)) \<longleftrightarrow> distinct (map f xs)"
proof -
  have "mset (map f (sort_key f xs)) = mset (map f xs)"
    by simp
  then show ?thesis
    by (rule mset_eq_imp_distinct_iff)
qed

lemma regionOf_inj:
  assumes keys: "distinct (map fst T)" and regions: "distinct (map snd T)"
    and fresh: "\<forall>c\<in>C. map_of T c = None \<longrightarrow> c \<notin> snd ` set T"
  shows "inj_on (regionOf T) (C \<union> fst ` set T)"
proof (rule inj_onI)
  fix a b
  assume a: "a \<in> C \<union> fst ` set T" and b: "b \<in> C \<union> fst ` set T"
    and eq: "regionOf T a = regionOf T b"
  have inj: "inj_on snd (set T)"
    using regions by (simp add: distinct_map)
  have none: "c \<in> C \<and> c \<notin> snd ` set T" if "c \<in> C \<union> fst ` set T" "map_of T c = None" for c
    using that fresh by (auto simp: map_of_eq_None_iff)
  show "a = b"
  proof (cases "map_of T a")
    case None
    note na = None
    show ?thesis
    proof (cases "map_of T b")
      case None
      with na eq show ?thesis by simp
    next
      case (Some rb)
      then have "(b, rb) \<in> set T" by (rule map_of_SomeD)
      then have "rb \<in> snd ` set T" by force
      with none [OF a na] na Some eq show ?thesis by simp
    qed
  next
    case (Some ra)
    note sa = Some
    then have ina: "(a, ra) \<in> set T" by (rule map_of_SomeD)
    show ?thesis
    proof (cases "map_of T b")
      case None
      from ina have "ra \<in> snd ` set T" by force
      with none [OF b None] None sa eq show ?thesis by simp
    next
      case (Some rb)
      then have inb: "(b, rb) \<in> set T" by (rule map_of_SomeD)
      from sa Some eq have "snd (a, ra) = snd (b, rb)" by simp
      from inj_onD [OF inj this ina inb] show ?thesis by simp
    qed
  qed
qed

lemma remaining_regions:
  assumes asked: "set (map fst H2) \<subseteq> set (remainingHosts (filter (\<lambda>(k, v). k \<notin> C) T))"
    and keys2: "distinct (map fst H2)"
  shows "map (\<lambda>(host, ips). lookup (filter (\<lambda>(k, v). k \<notin> C) T) (TrimSuffix host domainSuffix)) H2 =
           map (regionOf T) (map (\<lambda>(host, ips). TrimSuffix host domainSuffix) H2)"
    and "distinct (map (\<lambda>(host, ips). TrimSuffix host domainSuffix) H2)"
    and "set (map (\<lambda>(host, ips). TrimSuffix host domainSuffix) H2) \<subseteq> fst ` set T - C"
proof -
  let ?m = "filter (\<lambda>(k, v). k \<notin> C) T"
  have host: "\<exists>k v. (k, v) \<in> set T \<and> k \<notin> C \<and> h = k @ domainSuffix" if "h \<in> fst ` set H2" for h
  proof -
    from that asked have "h \<in> set (remainingHosts ?m)" by auto
    then obtain kv where kv: "kv \<in> set ?m" "h = fst kv @ domainSuffix"
      by (auto simp: remainingHosts_def)
    obtain k v where "kv = (k, v)" by (cases kv)
    with kv show ?thesis by auto
  qed
  have trim: "TrimSuffix h domainSuffix \<in> fst ` set T - C \<and>
      h = TrimSuffix h domainSuffix @ domainSuffix" if "h \<in> fst ` set H2" for h
    using host [OF that] by (force simp: TrimSuffix_append)
  have look: "lookup ?m (TrimSuffix h domainSuffix) = regionOf T (TrimSuffix h domainSuffix)"
    if "h \<in> fst ` set H2" for h
  proof -
    let ?k = "TrimSuffix h domainSuffix"
    from trim [OF that] have k: "?k \<in> fst ` set T" "?k \<notin> C" by auto
    then obtain v where "map_of T ?k = Some v"
      by (cases "map_of T ?k") (auto simp: map_of_eq_None_iff)
    with k show ?thesis
      by (simp add: lookup_def map_of_filter_keys)
  qed
  have pointwise: "(case x of (host, ips) \<Rightarrow> lookup ?m (TrimSuffix host domainSuffix)) =
      regionOf T (case x of (host, ips) \<Rightarrow> TrimSuffix host domainSuffix)"
    if "x \<in> set H2" for x
  proof -
    obtain h ips where x: "x = (h, ips)" by (cases x)
    with that have "h \<in> fst ` set H2" by force
    from look [OF this] show ?thesis by (simp add: x cong: option.case_cong)
  qed
  show "map (\<lambda>(host, ips). lookup ?m (TrimSuffix host domainSuffix)) H2 =
      map (regionOf T) (map (\<lambda>(host, ips). TrimSuffix host domainSuffix) H2)"
    unfolding map_map comp_def by (rule map_cong [OF refl]) (rule pointwise)
  have inj: "inj_on (\<lambda>h. TrimSuffix h domainSuffix) (fst ` set H2)"
  proof (rule inj_onI)
    fix a b
    assume "a \<in> fst ` set H2" "b \<in> fst ` set H2"
      and "TrimSuffix a domainSuffix = TrimSuffix b domainSuffix"
    with trim [of a] trim [of b] show "a = b" by metis
  qed
  have eq: "map (\<lambda>(host, ips). TrimSuffix host domainSuffix) H2 =
      map (\<lambda>h. TrimSuffix h domainSuffix) (map fst H2)"
    by (simp add: case_prod_beta)
  show "distinct (map (\<lambda>(host, ips). TrimSuffix host domainSuffix) H2)"
    unfolding eq using keys2 inj by (auto simp: distinct_map intro: comp_inj_on)
  show "set (map (\<lambda>(host, ips). TrimSuffix host domainSuffix) H2) \<subseteq> fst ` set T - C"
    unfolding eq using trim by auto
qed

lemma remainingHosts_member:
  "map_of mapping subdomain = Some region \<Longrightarrow>
   subdomain @ domainSuffix \<in> set (remainingHosts mapping)"
  by (force simp: remainingHosts_def dest: map_of_SomeD)

lemma find_keeps_loop_results:
  assumes fetch: "fetchAndExtractFiles env = Inr contents"
    and pass1: "parallelResolve env (fst (extractHosts (extractHostFromOVPN env) contents))
                  repetition timeBetween True = (pre @ post, resolveWarnings, None)"
    and loop: "reconcileHosts (quote env)
                 (surfsharkSubdomainToRegion, [],
                  snd (extractHosts (extractHostFromOVPN env) contents))
                 pre = (mapping, servers, warnings)"
  shows "set servers \<subseteq> set (fst (findSurfsharkServersFromZip env))"
    and "set warnings \<subseteq> set (fst (snd (findSurfsharkServersFromZip env)))"
proof -
  let ?st = "(surfsharkSubdomainToRegion, [],
             snd (extractHosts (extractHostFromOVPN env) contents))"
  obtain m' s' w' where rest: "reconcileHosts (quote env) (mapping, servers, warnings) post =
      (m', servers @ s', warnings @ w')"
    using reconcile_grows [of "quote env" mapping servers warnings post]
    by (cases "reconcileHosts (quote env) (mapping, servers, warnings) post") auto
  have whole: "reconcileHosts (quote env) ?st (pre @ post) = (m', servers @ s', warnings @ w')"
    by (simp add: reconcileHosts_append loop rest)
  obtain H2 w2 e2 where pass2:
    "parallelResolve env (remainingHosts m') repetition timeBetween False = (H2, w2, e2)"
    by (cases "parallelResolve env (remainingHosts m') repetition timeBetween False")
  show "set servers \<subseteq> set (fst (findSurfsharkServersFromZip env))"
    unfolding find_success [OF fetch pass1 whole pass2] by auto
  show "set warnings \<subseteq> set (fst (snd (findSurfsharkServersFromZip env)))"
    unfolding find_success [OF fetch pass1 whole pass2] by auto
qed


section \<open>The claims\<close>

text \<open>
  C1. The claim is that a host of the second pass with no address gives a warning and no server.
  \<^verbatim>\<open>getRemainingServers\<close> has no test of the length of the addresses, unlike the loop
  over the strict pass: when the mapping of the resolver holds \<^verbatim>\<open>ae-dub\<close> with no
  address, the server of \<^verbatim>\<open>United Arab Emirates\<close> is returned with an empty list of
  addresses, by \<^verbatim>\<open>getRemainingServers\<close> and in the final list.
\<close>

theorem remaining_server_without_address:
  "getRemainingServers unresolvedEnv surfsharkSubdomainToRegion =
     ([\<lparr>Region = ''United Arab Emirates'', IPs = []\<rparr>,
       \<lparr>Region = ''Albania'', IPs = [[10, 0, 3, 4]]\<rparr>],
      [''no IP address found for host '' @ exampleQuote ''ae-dub.prod.surfshark.com'']) \<and>
   findSurfsharkServersFromZip unresolvedEnv =
     ([\<lparr>Region = ''Albania'', IPs = [[10, 0, 3, 4]]\<rparr>,
       \<lparr>Region = ''United Arab Emirates'', IPs = []\<rparr>],
      [''no IP address found for host '' @ exampleQuote ''ae-dub.prod.surfshark.com''],
      None)"
  using unresolved_remaining unresolved_run by simp

text \<open>
  C2, as stated, fails: the final list can hold two servers of one region. Two hosts of the
  archive with the same subdomain, which the table does not know, both get the subdomain as
  region.
\<close>

theorem regions_not_unique:
  "findSurfsharkServersFromZip sameCodeEnv =
     ([\<lparr>Region = ''zz-new'', IPs = [[10, 0, 0, 2]]\<rparr>,
       \<lparr>Region = ''zz-new'', IPs = [[10, 0, 0, 2]]\<rparr>],
      [''subdomain '' @ exampleQuote ''zz-new'' @ '' not found in Surfshark mapping'',
       ''subdomain '' @ exampleQuote ''zz-new'' @ '' not found in Surfshark mapping''],
      None) \<and>
   \<not> distinct (map Region (fst (findSurfsharkServersFromZip sameCodeEnv)))"
  using sameCode_run by simp

text \<open>
  C2, amended. The final list has at most one server per region when the hosts with addresses
  of the strict pass have pairwise distinct subdomains, none of these subdomains that is missing
  in the table is a region of the table, and the mapping returned by the second pass has
  pairwise distinct hosts, all among the hosts it was asked for.
\<close>

theorem regions_unique_when_codes_distinct:
  assumes fetch: "fetchAndExtractFiles env = Inr contents"
    and pass1: "parallelResolve env (fst (extractHosts (extractHostFromOVPN env) contents))
                  repetition timeBetween True = (hostToIPs, resolveWarnings, err)"
    and codes: "distinct (resolvedCodes hostToIPs)"
    and fresh: "\<forall>code \<in> set (resolvedCodes hostToIPs).
                  map_of surfsharkSubdomainToRegion code = None \<longrightarrow>
                  code \<notin> snd ` set surfsharkSubdomainToRegion"
    and loop: "reconcileHosts (quote env)
                 (surfsharkSubdomainToRegion, [],
                  snd (extractHosts (extractHostFromOVPN env) contents))
                 hostToIPs = (mapping, servers, warnings)"
    and pass2: "parallelResolve env (remainingHosts mapping) repetition timeBetween False =
                  (hostToIPs', warnings', err')"
    and keys2: "distinct (map fst hostToIPs')"
    and asked: "set (map fst hostToIPs') \<subseteq> set (remainingHosts mapping)"
  shows "distinct (map Region (fst (findSurfsharkServersFromZip env)))"
proof (cases err)
  case (Some e)
  with fetch pass1 show ?thesis
    by (simp add: find_resolve_error)
next
  case None
  let ?T = surfsharkSubdomainToRegion
  let ?C = "set (resolvedCodes hostToIPs)"
  let ?codes2 = "map (\<lambda>(host, ips). TrimSuffix host domainSuffix) hostToIPs'"
  have m: "mapping = filter (\<lambda>(k, v). k \<notin> ?C) ?T"
    using reconcile_mapping [of "quote env" ?T "[]"
        "snd (extractHosts (extractHostFromOVPN env) contents)" hostToIPs] loop
    by simp
  have r1: "map Region servers = map (regionOf ?T) (resolvedCodes hostToIPs)"
    using reconcile_regions [OF codes, of "quote env" ?T "[]"
        "snd (extractHosts (extractHostFromOVPN env) contents)"] loop
    by simp
  note rem = remaining_regions [OF asked [unfolded m] keys2]
  have r2: "map (\<lambda>(host, ips). lookup mapping (TrimSuffix host domainSuffix)) hostToIPs' =
      map (regionOf ?T) ?codes2"
    using rem(1) by (simp add: m)
  have all: "map Region
      (servers @
       map (\<lambda>(host, ips).
              \<lparr>Region = lookup mapping (TrimSuffix host domainSuffix),
               IPs = uniqueSortedIPs ips\<rparr>) hostToIPs') =
      map (regionOf ?T) (resolvedCodes hostToIPs @ ?codes2)"
    using r1 r2 by (simp add: case_prod_beta comp_def)
  have disj: "set (resolvedCodes hostToIPs) \<inter> set ?codes2 = {}"
    using rem(3) by blast
  have d: "distinct (resolvedCodes hostToIPs @ ?codes2)"
    using codes rem(2) disj by (simp only: distinct_append simp_thms)
  have sub: "set (resolvedCodes hostToIPs @ ?codes2) \<subseteq> ?C \<union> fst ` set ?T"
    using rem(3) unfolding set_append by blast
  have "inj_on (regionOf ?T) (?C \<union> fst ` set ?T)"
    using table_keys_distinct table_regions_distinct fresh by (rule regionOf_inj)
  then have "inj_on (regionOf ?T) (set (resolvedCodes hostToIPs @ ?codes2))"
    using sub by (rule inj_on_subset)
  with d have "distinct (map (regionOf ?T) (resolvedCodes hostToIPs @ ?codes2))"
    by (simp only: distinct_map simp_thms)
  then show ?thesis
    unfolding find_success [OF fetch pass1 [unfolded None] loop pass2] fst_conv
      distinct_map_sort_key all .
qed

theorem regions_unique_when_codes_distinct_witness:
  "distinct (resolvedCodes [(''ae-dub.prod.surfshark.com'', [[10, 0, 0, 2]]),
                            (''zz-new.prod.surfshark.com'', [[10, 0, 0, 2]])]) \<and>
   set (map fst [(''al-tia.prod.surfshark.com'', [[10, 0, 3, 5], [10, 0, 3, 4], [10, 0, 3, 5]])])
     \<subseteq> set (remainingHosts (AList.delete ''ae-dub'' surfsharkSubdomainToRegion)) \<and>
   map Region (fst (findSurfsharkServersFromZip exampleEnv)) =
     [''Albania'', ''United Arab Emirates'', ''zz-new''] \<and>
   distinct (map Region (fst (findSurfsharkServersFromZip exampleEnv)))"
proof -
  let ?contents = "[
       (''ae-dub_udp.ovpn'', ''remote ae-dub.prod.surfshark.com''),
       (''ae-dub_tcp.ovpn'', ''remote ae-dub.prod.surfshark.com''),
       (''zz-new_udp.ovpn'', ''remote zz-new.prod.surfshark.com''),
       (''broken_udp.ovpn'', ''client'')]"
  let ?H1 = "[(''ae-dub.prod.surfshark.com'', [[10, 0, 0, 2]]),
              (''zz-new.prod.surfshark.com'', [[10, 0, 0, 2::nat]])]"
  let ?H2 = "[(''al-tia.prod.surfshark.com'', [[10, 0, 3, 5], [10, 0, 3, 4], [10, 0, 3, 5::nat]])]"
  have fetch: "fetchAndExtractFiles exampleEnv = Inr ?contents"
    by (simp add: exampleEnv_def)
  have p: "extractHostFromOVPN exampleEnv = exampleParse"
    and q: "quote exampleEnv = exampleQuote"
    by (simp_all add: exampleEnv_def)
  have pass1: "parallelResolve exampleEnv
      (fst (extractHosts (extractHostFromOVPN exampleEnv) ?contents))
      repetition timeBetween True = (?H1, [], None)"
    unfolding p example_extract by (simp add: exampleEnv_def)
  have codes_eq: "resolvedCodes ?H1 = [''ae-dub'', ''zz-new'']"
    by (simp add: TrimSuffix_def HasSuffix_def domainSuffix_def)
  have codes: "distinct (resolvedCodes ?H1)"
    unfolding codes_eq by simp
  have fresh: "\<forall>code \<in> set (resolvedCodes ?H1).
      map_of surfsharkSubdomainToRegion code = None \<longrightarrow>
      code \<notin> snd ` set surfsharkSubdomainToRegion"
    unfolding codes_eq using table_zz_new_region by (simp add: table_ae_dub)
  have loop: "reconcileHosts (quote exampleEnv)
      (surfsharkSubdomainToRegion, [],
       snd (extractHosts (extractHostFromOVPN exampleEnv) ?contents)) ?H1 =
      (AList.delete ''ae-dub'' surfsharkSubdomainToRegion,
       [\<lparr>Region = ''United Arab Emirates'', IPs = [[10, 0, 0, 2]]\<rparr>,
        \<lparr>Region = ''zz-new'', IPs = [[10, 0, 0, 2]]\<rparr>],
       [''remote host not found in broken_udp.ovpn'',
        ''subdomain '' @ exampleQuote ''zz-new'' @ '' not found in Surfshark mapping''])"
    unfolding p q example_extract using example_reconcile by simp
  have pass2: "parallelResolve exampleEnv
      (remainingHosts (AList.delete ''ae-dub'' surfsharkSubdomainToRegion))
      repetition timeBetween False = (?H2, [''no IP address found''], None)"
    by (simp add: exampleEnv_def)
  have keys2: "distinct (map fst ?H2)"
    by simp
  have "map_of (AList.delete ''ae-dub'' surfsharkSubdomainToRegion) ''al-tia'' = Some ''Albania''"
    by (simp add: AList.delete_conv table_al_tia)
  then have "''al-tia'' @ domainSuffix \<in>
      set (remainingHosts (AList.delete ''ae-dub'' surfsharkSubdomainToRegion))"
    by (rule remainingHosts_member)
  then have asked: "set (map fst ?H2) \<subseteq>
      set (remainingHosts (AList.delete ''ae-dub'' surfsharkSubdomainToRegion))"
    by (simp add: domainSuffix_def)
  have "distinct (map Region (fst (findSurfsharkServersFromZip exampleEnv)))"
    using fetch pass1 codes fresh loop pass2 keys2 asked
    by (rule regions_unique_when_codes_distinct)
  with codes asked show ?thesis
    by (simp only: example_run fst_conv list.map SurfsharkServer.simps simp_thms)
qed

text \<open>
  C3. On success the servers are sorted by region, in the byte-wise lexicographic order of
  strings: the region of an earlier server is at most the region of a later one.
\<close>

theorem servers_sorted_by_region:
  assumes "findSurfsharkServersFromZip env = (servers, warnings, None)"
  shows "sorted (map Region servers) \<and>
         (\<forall>i j. i < j \<and> j < length servers \<longrightarrow> Region (servers ! i) \<le> Region (servers ! j))"
proof -
  have s: "sorted (map Region servers)"
    using find_sorted [of env] assms by simp
  have "Region (servers ! i) \<le> Region (servers ! j)" if "i < j" "j < length servers" for i j
    using sorted_nth_mono [OF s, of i j] that by simp
  with s show ?thesis by blast
qed

theorem servers_sorted_by_region_witness:
  "findSurfsharkServersFromZip exampleEnv =
     ([\<lparr>Region = ''Albania'', IPs = [[10, 0, 3, 4], [10, 0, 3, 5]]\<rparr>,
       \<lparr>Region = ''United Arab Emirates'', IPs = [[10, 0, 0, 2]]\<rparr>,
       \<lparr>Region = ''zz-new'', IPs = [[10, 0, 0, 2]]\<rparr>],
      [''remote host not found in broken_udp.ovpn'',
       ''subdomain '' @ exampleQuote ''zz-new'' @ '' not found in Surfshark mapping'',
       ''no IP address found''],
      None) \<and>
   sorted [''Albania'', ''United Arab Emirates'', ''zz-new'']"
  using servers_sorted_by_region [OF example_run] example_run by simp

text \<open>
  C4. A file whose name ends in \<^verbatim>\<open>_tcp.ovpn\<close> is skipped: the extraction gives the
  same hosts and the same warnings as without the file. For the two files
  \<^verbatim>\<open>n_tcp.ovpn\<close> and \<^verbatim>\<open>n_udp.ovpn\<close> of one host, in either order, exactly
  that host is extracted, once.
\<close>

theorem tcp_files_skipped:
  "(HasSuffix fileName ''_tcp.ovpn'' \<longrightarrow>
      extractHosts p (pre @ (fileName, content) # post) = extractHosts p (pre @ post)) \<and>
   (p cu = (x, w, None) \<longrightarrow>
      fst (extractHosts p [(n @ ''_tcp.ovpn'', ct), (n @ ''_udp.ovpn'', cu)]) = [x] \<and>
      fst (extractHosts p [(n @ ''_udp.ovpn'', cu), (n @ ''_tcp.ovpn'', ct)]) = [x])"
proof -
  have tcp: "HasSuffix (n @ ''_tcp.ovpn'') ''_tcp.ovpn''"
    by (simp add: HasSuffix_append_same_length)
  have udp: "\<not> HasSuffix (n @ ''_udp.ovpn'') ''_tcp.ovpn''"
    by (simp add: HasSuffix_append_same_length)
  have skip: "extractHosts p (pre @ (fileName, content) # post) = extractHosts p (pre @ post)"
    if "HasSuffix fileName ''_tcp.ovpn''"
    using that extractHosts_append [of p pre "(fileName, content) # post"]
      extractHosts_append [of p pre post] extractHosts_Cons [of p "(fileName, content)" post]
    by simp
  show ?thesis
    using skip tcp udp by (simp add: extractHosts_Cons extractHosts_Nil Let_def)
qed

theorem tcp_files_skipped_witness:
  "HasSuffix ''x_tcp.ovpn'' ''_tcp.ovpn'' \<and>
   exampleParse ''remote x'' = (''x'', [], None) \<and>
   extractHosts exampleParse [(''x_tcp.ovpn'', ''remote x''), (''x_udp.ovpn'', ''remote x'')] =
     extractHosts exampleParse [(''x_udp.ovpn'', ''remote x'')] \<and>
   fst (extractHosts exampleParse
          [(''x_tcp.ovpn'', ''remote x''), (''x_udp.ovpn'', ''remote x'')]) = [''x''] \<and>
   fst (extractHosts exampleParse
          [(''x_udp.ovpn'', ''remote x''), (''x_tcp.ovpn'', ''remote x'')]) = [''x'']"
proof -
  have h: "HasSuffix ''x_tcp.ovpn'' ''_tcp.ovpn''"
    by (simp add: HasSuffix_def)
  have p: "exampleParse ''remote x'' = (''x'', [], None)"
    by (simp add: exampleParse_def)
  have t: "(HasSuffix ''x_tcp.ovpn'' ''_tcp.ovpn'' \<longrightarrow>
        extractHosts exampleParse [(''x_tcp.ovpn'', ''remote x''), (''x_udp.ovpn'', ''remote x'')] =
          extractHosts exampleParse [(''x_udp.ovpn'', ''remote x'')]) \<and>
      (exampleParse ''remote x'' = (''x'', [], None) \<longrightarrow>
        fst (extractHosts exampleParse
               [(''x_tcp.ovpn'', ''remote x''), (''x_udp.ovpn'', ''remote x'')]) = [''x''] \<and>
        fst (extractHosts exampleParse
               [(''x_udp.ovpn'', ''remote x''), (''x_tcp.ovpn'', ''remote x'')]) = [''x''])"
    using tcp_files_skipped [where fileName = "''x_tcp.ovpn''" and p = exampleParse
        and pre = "[]" and content = "''remote x''"
        and post = "[(''x_udp.ovpn'', ''remote x'')]" and cu = "''remote x''"
        and x = "''x''" and w = "[]" and n = "''x''" and ct = "''remote x''"]
    by simp
  show ?thesis
    using h p t by blast
qed

text \<open>
  C5, as stated, fails: the list of hosts is not deduplicated. Two files that are not skipped
  and name the same host give that host twice.
\<close>

theorem hosts_not_deduplicated:
  "\<not> distinct (fst (extractHosts exampleParse
        [(''a_udp.ovpn'', ''remote x.prod.surfshark.com''),
         (''b_udp.ovpn'', ''remote x.prod.surfshark.com'')]))"
  by (simp add: extractHosts_def exampleParse_def HasSuffix_def Let_def)

text \<open>
  C5, amended. The list of hosts holds, in the order of the files, one host for every file
  that is not skipped and on which the parser returns no error; a host named by several such
  files occurs as many times.
\<close>

theorem hosts_one_per_parsed_file:
  "fst (extractHosts p contents) =
     map (\<lambda>(fileName, content). fst (p content))
       (filter (\<lambda>(fileName, content).
          \<not> HasSuffix fileName ''_tcp.ovpn'' \<and> snd (snd (p content)) = None) contents)"
proof (induction contents)
  case Nil
  show ?case by (simp add: extractHosts_Nil)
next
  case (Cons x contents)
  show ?case
    using Cons.IH
    by (cases x) (simp add: extractHosts_Cons Let_def split: prod.splits option.splits)
qed

theorem hosts_one_per_parsed_file_witness:
  "fst (extractHosts exampleParse
     [(''a_udp.ovpn'', ''remote x.prod.surfshark.com''),
      (''a_tcp.ovpn'', ''remote x.prod.surfshark.com''),
      (''b_udp.ovpn'', ''remote x.prod.surfshark.com''),
      (''c_udp.ovpn'', ''client'')]) =
   [''x.prod.surfshark.com'', ''x.prod.surfshark.com'']"
  using hosts_one_per_parsed_file [of exampleParse
     "[(''a_udp.ovpn'', ''remote x.prod.surfshark.com''),
       (''a_tcp.ovpn'', ''remote x.prod.surfshark.com''),
       (''b_udp.ovpn'', ''remote x.prod.surfshark.com''),
       (''c_udp.ovpn'', ''client'')]"]
  by (simp add: exampleParse_def HasSuffix_def)

text \<open>
  C6. A file that is not skipped and on which the parser returns an error gives no host and
  exactly one warning built from the error and the name of the file, after the warning of the
  parser itself when it is not empty; the files before and after it are processed as they are
  without it. The error returned by \<^verbatim>\<open>findSurfsharkServersFromZip\<close> is the one of the
  strict pass over the hosts of the other files, never the error of the parser.
\<close>

theorem parse_failure_is_warning:
  assumes "\<not> HasSuffix fileName ''_tcp.ovpn''"
    and "extractHostFromOVPN env content = (host, warning, Some e)"
    and "fetchAndExtractFiles env = Inr (pre @ (fileName, content) # post)"
  shows "extractHosts (extractHostFromOVPN env) (pre @ (fileName, content) # post) =
           (fst (extractHosts (extractHostFromOVPN env) pre) @
            fst (extractHosts (extractHostFromOVPN env) post),
            snd (extractHosts (extractHostFromOVPN env) pre) @
            (if warning = [] then [] else [warning]) @ [message e @ '' in '' @ fileName] @
            snd (extractHosts (extractHostFromOVPN env) post)) \<and>
         snd (snd (findSurfsharkServersFromZip env)) =
           snd (snd (parallelResolve env
                       (fst (extractHosts (extractHostFromOVPN env) pre) @
                        fst (extractHosts (extractHostFromOVPN env) post))
                       repetition timeBetween True))"
proof -
  let ?p = "extractHostFromOVPN env"
  have one: "extractFile ?p ([], []) (fileName, content) =
      ([], (if warning = [] then [] else [warning]) @ [message e @ '' in '' @ fileName])"
    using assms(1,2) by (simp add: Let_def)
  have ex: "extractHosts ?p (pre @ (fileName, content) # post) =
      (fst (extractHosts ?p pre) @ fst (extractHosts ?p post),
       snd (extractHosts ?p pre) @
       (if warning = [] then [] else [warning]) @ [message e @ '' in '' @ fileName] @
       snd (extractHosts ?p post))"
    using extractHosts_append [of ?p pre "(fileName, content) # post"]
      extractHosts_Cons [of ?p "(fileName, content)" post] one
    by simp
  have "snd (snd (findSurfsharkServersFromZip env)) =
      snd (snd (parallelResolve env (fst (extractHosts ?p (pre @ (fileName, content) # post)))
                  repetition timeBetween True))"
    using find_error_source [of env] assms(3) by simp
  with ex show ?thesis by simp
qed

theorem parse_failure_is_warning_witness:
  "\<not> HasSuffix ''broken_udp.ovpn'' ''_tcp.ovpn'' \<and>
   extractHostFromOVPN exampleEnv ''client'' = ([], [], Some (Error ''remote host not found'')) \<and>
   extractHosts (extractHostFromOVPN exampleEnv)
     [(''ae-dub_udp.ovpn'', ''remote ae-dub.prod.surfshark.com''),
      (''ae-dub_tcp.ovpn'', ''remote ae-dub.prod.surfshark.com''),
      (''zz-new_udp.ovpn'', ''remote zz-new.prod.surfshark.com''),
      (''broken_udp.ovpn'', ''client'')] =
     ([''ae-dub.prod.surfshark.com'', ''zz-new.prod.surfshark.com''],
      [''remote host not found in broken_udp.ovpn'']) \<and>
   snd (snd (findSurfsharkServersFromZip exampleEnv)) = None"
proof -
  have h: "\<not> HasSuffix ''broken_udp.ovpn'' ''_tcp.ovpn''"
    by (simp add: HasSuffix_def)
  have p: "extractHostFromOVPN exampleEnv ''client'' =
      ([], [], Some (Error ''remote host not found''))"
    by (simp add: exampleEnv_def exampleParse_def)
  have f: "fetchAndExtractFiles exampleEnv =
      Inr ([(''ae-dub_udp.ovpn'', ''remote ae-dub.prod.surfshark.com''),
            (''ae-dub_tcp.ovpn'', ''remote ae-dub.prod.surfshark.com''),
            (''zz-new_udp.ovpn'', ''remote zz-new.prod.surfshark.com'')] @
           (''broken_udp.ovpn'', ''client'') # [])"
    by (simp add: exampleEnv_def)
  have pre: "extractHosts (extractHostFromOVPN exampleEnv)
      [(''ae-dub_udp.ovpn'', ''remote ae-dub.prod.surfshark.com''),
       (''ae-dub_tcp.ovpn'', ''remote ae-dub.prod.surfshark.com''),
       (''zz-new_udp.ovpn'', ''remote zz-new.prod.surfshark.com'')] =
      ([''ae-dub.prod.surfshark.com'', ''zz-new.prod.surfshark.com''], [])"
    by (simp add: extractHosts_def exampleEnv_def exampleParse_def HasSuffix_def Let_def)
  have r: "parallelResolve exampleEnv
      [''ae-dub.prod.surfshark.com'', ''zz-new.prod.surfshark.com''] repetition timeBetween True =
      ([(''ae-dub.prod.surfshark.com'', [[10, 0, 0, 2]]),
        (''zz-new.prod.surfshark.com'', [[10, 0, 0, 2]])], [], None)"
    by (simp add: exampleEnv_def)
  show ?thesis
    using parse_failure_is_warning [OF h p f] h p
    by (simp add: pre extractHosts_Nil r)
qed

text \<open>
  C7. When the strict pass returns an error, \<^verbatim>\<open>findSurfsharkServersFromZip\<close> returns
  this error with no server, and \<^verbatim>\<open>updateSurfshark\<close> returns an error that wraps it and
  leaves the stored timestamp and servers, and the printed output, as they were.
\<close>

theorem strict_failure_aborts:
  assumes "fetchAndExtractFiles env = Inr contents"
    and "parallelResolve env (fst (extractHosts (extractHostFromOVPN env) contents))
           repetition timeBetween True = (hostToIPs, resolveWarnings, Some e)"
  shows "findSurfsharkServersFromZip env =
           ([], snd (extractHosts (extractHostFromOVPN env) contents), Some e) \<and>
         fst (updateSurfshark env u) =
           Some (WrapError (''cannot update Surfshark servers: '' @ message e) e) \<and>
         Surfshark (snd (updateSurfshark env u)) = Surfshark u \<and>
         printed (snd (updateSurfshark env u)) = printed u"
proof -
  have f: "findSurfsharkServersFromZip env =
      ([], snd (extractHosts (extractHostFromOVPN env) contents), Some e)"
    using assms by (rule find_resolve_error)
  show ?thesis
    unfolding update_failure [OF f] using f by simp
qed

theorem strict_failure_aborts_witness:
  "findSurfsharkServersFromZip strictFailureEnv =
     ([], [''remote host not found in broken_udp.ovpn''],
      Some (Error ''no IP address found for host zz-new.prod.surfshark.com'')) \<and>
   fst (updateSurfshark strictFailureEnv exampleUpdater) =
     Some (WrapError
       (''cannot update Surfshark servers: '' @
        ''no IP address found for host zz-new.prod.surfshark.com'')
       (Error ''no IP address found for host zz-new.prod.surfshark.com'')) \<and>
   Surfshark (snd (updateSurfshark strictFailureEnv exampleUpdater)) =
     \<lparr>Timestamp = 1600000000, Servers = [\<lparr>Region = ''Albania'', IPs = [[10, 0, 3, 4]]\<rparr>]\<rparr>"
proof -
  have fetch: "fetchAndExtractFiles strictFailureEnv = Inr [
       (''ae-dub_udp.ovpn'', ''remote ae-dub.prod.surfshark.com''),
       (''ae-dub_tcp.ovpn'', ''remote ae-dub.prod.surfshark.com''),
       (''zz-new_udp.ovpn'', ''remote zz-new.prod.surfshark.com''),
       (''broken_udp.ovpn'', ''client'')]"
    by (simp add: strictFailureEnv_def exampleEnv_def)
  have p: "extractHostFromOVPN strictFailureEnv = exampleParse"
    by (simp add: strictFailureEnv_def exampleEnv_def)
  have r1: "parallelResolve strictFailureEnv
      (fst (extractHosts (extractHostFromOVPN strictFailureEnv) [
       (''ae-dub_udp.ovpn'', ''remote ae-dub.prod.surfshark.com''),
       (''ae-dub_tcp.ovpn'', ''remote ae-dub.prod.surfshark.com''),
       (''zz-new_udp.ovpn'', ''remote zz-new.prod.surfshark.com''),
       (''broken_udp.ovpn'', ''client'')])) repetition timeBetween True =
      ([], [], Some (Error ''no IP address found for host zz-new.prod.surfshark.com''))"
    by (simp add: strictFailureEnv_def)
  show ?thesis
    using strict_failure_aborts [OF fetch r1, of exampleUpdater]
    by (simp add: p example_extract exampleUpdater_def)
qed

text \<open>
  C8, as stated, fails: when the second pass is cancelled and returns the error of the context
  with the one host it resolved, \<^verbatim>\<open>findSurfsharkServersFromZip\<close> returns no error and
  the server of this host.
\<close>

theorem cancelled_second_pass_succeeds:
  "snd (snd (parallelResolve cancelledEnv (remainingHosts surfsharkSubdomainToRegion)
               repetition timeBetween False)) = Some (Error ''context canceled'') \<and>
   findSurfsharkServersFromZip cancelledEnv =
     ([\<lparr>Region = ''United Arab Emirates'', IPs = [[10, 0, 0, 2]]\<rparr>], [], None)"
  using cancelled_run by (simp add: cancelledEnv_def)

text \<open>
  C8, amended. \<^verbatim>\<open>getRemainingServers\<close> drops the error of the second pass. Once the
  archive is fetched, the error returned is the error of the strict pass, whatever the second
  pass returns; when the strict pass has no error, the result is a success, with the servers of
  the strict pass, one server for every entry of the mapping returned by the second pass, and
  the warnings of both.
\<close>

theorem second_pass_error_dropped:
  assumes "fetchAndExtractFiles env = Inr contents"
  shows "snd (snd (findSurfsharkServersFromZip env)) =
           snd (snd (parallelResolve env (fst (extractHosts (extractHostFromOVPN env) contents))
                       repetition timeBetween True)) \<and>
         (parallelResolve env (fst (extractHosts (extractHostFromOVPN env) contents))
            repetition timeBetween True = (hostToIPs, resolveWarnings, None) \<longrightarrow>
          reconcileHosts (quote env)
            (surfsharkSubdomainToRegion, [],
             snd (extractHosts (extractHostFromOVPN env) contents))
            hostToIPs = (mapping, servers, warnings) \<longrightarrow>
          parallelResolve env (remainingHosts mapping) repetition timeBetween False =
            (hostToIPs', warnings', e') \<longrightarrow>
          findSurfsharkServersFromZip env =
            (sort_key Region
               (servers @
                map (\<lambda>(host, ips).
                       \<lparr>Region = lookup mapping (TrimSuffix host domainSuffix),
                        IPs = uniqueSortedIPs ips\<rparr>) hostToIPs'),
             warnings @ warnings', None))"
  using find_error_source [of env] find_success [OF assms] assms by simp

theorem second_pass_error_dropped_witness:
  "fetchAndExtractFiles cancelledEnv = Inr [] \<and>
   parallelResolve cancelledEnv (remainingHosts surfsharkSubdomainToRegion)
     repetition timeBetween False =
     ([(''ae-dub.prod.surfshark.com'', [[10, 0, 0, 2]])], [],
      Some (Error ''context canceled'')) \<and>
   snd (snd (findSurfsharkServersFromZip cancelledEnv)) = None \<and>
   fst (findSurfsharkServersFromZip cancelledEnv) =
     [\<lparr>Region = ''United Arab Emirates'', IPs = [[10, 0, 0, 2]]\<rparr>]"
proof -
  have fetch: "fetchAndExtractFiles cancelledEnv = Inr []"
    by (simp add: cancelledEnv_def)
  have r1: "parallelResolve cancelledEnv
      (fst (extractHosts (extractHostFromOVPN cancelledEnv) [])) repetition timeBetween True =
      ([], [], None)"
    by (simp add: cancelledEnv_def)
  have r2: "parallelResolve cancelledEnv (remainingHosts surfsharkSubdomainToRegion)
      repetition timeBetween False =
      ([(''ae-dub.prod.surfshark.com'', [[10, 0, 0, 2]])], [], Some (Error ''context canceled''))"
    by (simp add: cancelledEnv_def)
  have look: "lookup surfsharkSubdomainToRegion
      (TrimSuffix ''ae-dub.prod.surfshark.com'' domainSuffix) = ''United Arab Emirates''"
    by (simp add: lookup_def TrimSuffix_def HasSuffix_def domainSuffix_def table_ae_dub)
  have "findSurfsharkServersFromZip cancelledEnv =
      (sort_key Region
         ([] @ map (\<lambda>(host, ips).
                      \<lparr>Region = lookup surfsharkSubdomainToRegion (TrimSuffix host domainSuffix),
                       IPs = uniqueSortedIPs ips\<rparr>)
                 [(''ae-dub.prod.surfshark.com'', [[10, 0, 0, 2]])]),
       [] @ [], None)"
    using second_pass_error_dropped [OF fetch, of "[]" "[]" surfsharkSubdomainToRegion "[]" "[]"
        "[(''ae-dub.prod.surfshark.com'', [[10, 0, 0, 2]])]" "[]"
        "Some (Error ''context canceled'')"]
      r1 r2 empty_archive_reconcile [of "quote cancelledEnv" "extractHostFromOVPN cancelledEnv"]
    by blast
  then show ?thesis
    using fetch r2 by (simp add: look uniqueSortedIPs_single)
qed

text \<open>
  C9. For every host of the strict pass with addresses, reached by the loop in the state
  \<open>(mapping, servers, warnings)\<close>, the loop reads the subdomain in the working copy
  \<open>mapping\<close>, and one of two cases holds. When the subdomain is not in the working copy,
  which is so whenever it is not in the table, the loop appends one server whose region is the
  bare subdomain and exactly one warning naming the subdomain, leaves the working copy as it
  is, and the server and the warning are in the final result. When the subdomain is in the
  working copy, its region there is the region of the table, the loop appends one server with
  this region and no warning, removes the subdomain from the working copy, and the server is
  in the final result. A subdomain of the table that an earlier host has already removed from
  the working copy is in the first case.
\<close>

theorem unmapped_code_keeps_server:
  assumes fetch: "fetchAndExtractFiles env = Inr contents"
    and pass1: "parallelResolve env (fst (extractHosts (extractHostFromOVPN env) contents))
                  repetition timeBetween True = (pre @ (host, ips) # post, resolveWarnings, None)"
    and ips: "ips \<noteq> []"
    and loop: "reconcileHosts (quote env)
                 (surfsharkSubdomainToRegion, [],
                  snd (extractHosts (extractHostFromOVPN env) contents))
                 pre = (mapping, servers, warnings)"
  shows "(map_of surfsharkSubdomainToRegion (TrimSuffix host domainSuffix) = None \<longrightarrow>
            map_of mapping (TrimSuffix host domainSuffix) = None) \<and>
         (map_of mapping (TrimSuffix host domainSuffix) = None \<longrightarrow>
            reconcileHost (quote env) (mapping, servers, warnings) (host, ips) =
              (mapping,
               servers @ [\<lparr>Region = TrimSuffix host domainSuffix, IPs = uniqueSortedIPs ips\<rparr>],
               warnings @ [''subdomain '' @ quote env (TrimSuffix host domainSuffix) @
                           '' not found in Surfshark mapping'']) \<and>
            \<lparr>Region = TrimSuffix host domainSuffix, IPs = uniqueSortedIPs ips\<rparr>
              \<in> set (fst (findSurfsharkServersFromZip env)) \<and>
            ''subdomain '' @ quote env (TrimSuffix host domainSuffix) @
              '' not found in Surfshark mapping''
              \<in> set (fst (snd (findSurfsharkServersFromZip env)))) \<and>
         (map_of mapping (TrimSuffix host domainSuffix) = Some region \<longrightarrow>
            map_of surfsharkSubdomainToRegion (TrimSuffix host domainSuffix) = Some region \<and>
            reconcileHost (quote env) (mapping, servers, warnings) (host, ips) =
              (AList.delete (TrimSuffix host domainSuffix) mapping,
               servers @ [\<lparr>Region = region, IPs = uniqueSortedIPs ips\<rparr>],
               warnings) \<and>
            \<lparr>Region = region, IPs = uniqueSortedIPs ips\<rparr>
              \<in> set (fst (findSurfsharkServersFromZip env)))"
proof -
  let ?st = "(surfsharkSubdomainToRegion, [],
             snd (extractHosts (extractHostFromOVPN env) contents))"
  let ?c = "TrimSuffix host domainSuffix"
  let ?C = "set (resolvedCodes pre)"
  have pass1': "parallelResolve env (fst (extractHosts (extractHostFromOVPN env) contents))
      repetition timeBetween True = ((pre @ [(host, ips)]) @ post, resolveWarnings, None)"
    using pass1 by simp
  have step: "reconcileHosts (quote env) ?st (pre @ [(host, ips)]) =
      reconcileHost (quote env) (mapping, servers, warnings) (host, ips)"
    by (simp add: reconcileHosts_append loop reconcileHosts_Cons reconcileHosts_Nil
        del: reconcileHost.simps)
  have sub: "mapping = filter (\<lambda>(k, v). k \<notin> ?C) surfsharkSubdomainToRegion"
    using reconcile_mapping [of "quote env" surfsharkSubdomainToRegion "[]"
        "snd (extractHosts (extractHostFromOVPN env) contents)" pre] loop
    by simp
  have copy: "map_of mapping ?c =
      (if ?c \<in> ?C then None else map_of surfsharkSubdomainToRegion ?c)"
    unfolding sub by (simp add: map_of_filter_keys map_of_filter_keys_removed)
  have absent: "map_of mapping ?c = None" if "map_of surfsharkSubdomainToRegion ?c = None"
    using that copy by simp
  have table: "map_of surfsharkSubdomainToRegion ?c = Some r" if "map_of mapping ?c = Some r" for r
    using that copy by (simp split: if_splits)
  have unmapped: "reconcileHost (quote env) (mapping, servers, warnings) (host, ips) =
        (mapping,
         servers @ [\<lparr>Region = ?c, IPs = uniqueSortedIPs ips\<rparr>],
         warnings @ [''subdomain '' @ quote env ?c @ '' not found in Surfshark mapping'']) \<and>
      \<lparr>Region = ?c, IPs = uniqueSortedIPs ips\<rparr> \<in> set (fst (findSurfsharkServersFromZip env)) \<and>
      ''subdomain '' @ quote env ?c @ '' not found in Surfshark mapping''
        \<in> set (fst (snd (findSurfsharkServersFromZip env)))"
    if none: "map_of mapping ?c = None"
  proof -
    have st: "reconcileHost (quote env) (mapping, servers, warnings) (host, ips) =
        (mapping,
         servers @ [\<lparr>Region = ?c, IPs = uniqueSortedIPs ips\<rparr>],
         warnings @ [''subdomain '' @ quote env ?c @ '' not found in Surfshark mapping''])"
      using ips none by (rule reconcileHost_unmapped)
    note keep = find_keeps_loop_results [OF fetch pass1' step [unfolded st]]
    from keep st show ?thesis by auto
  qed
  have mapped: "map_of surfsharkSubdomainToRegion ?c = Some r \<and>
      reconcileHost (quote env) (mapping, servers, warnings) (host, ips) =
        (AList.delete ?c mapping, servers @ [\<lparr>Region = r, IPs = uniqueSortedIPs ips\<rparr>],
         warnings) \<and>
      \<lparr>Region = r, IPs = uniqueSortedIPs ips\<rparr> \<in> set (fst (findSurfsharkServersFromZip env))"
    if some: "map_of mapping ?c = Some r" for r
  proof -
    have st: "reconcileHost (quote env) (mapping, servers, warnings) (host, ips) =
        (AList.delete ?c mapping, servers @ [\<lparr>Region = r, IPs = uniqueSortedIPs ips\<rparr>], warnings)"
      using ips some by (rule reconcileHost_mapped)
    note keep = find_keeps_loop_results [OF fetch pass1' step [unfolded st]]
    from keep st table [OF some] show ?thesis by auto
  qed
  from absent unmapped mapped [of region] show ?thesis by blast
qed

theorem unmapped_code_keeps_server_witness:
  "map_of surfsharkSubdomainToRegion (TrimSuffix ''zz-new.prod.surfshark.com'' domainSuffix) = None \<and>
   \<lparr>Region = ''zz-new'', IPs = [[10, 0, 0, 2]]\<rparr> \<in> set (fst (findSurfsharkServersFromZip exampleEnv)) \<and>
   ''subdomain '' @ exampleQuote ''zz-new'' @ '' not found in Surfshark mapping''
     \<in> set (fst (snd (findSurfsharkServersFromZip exampleEnv))) \<and>
   map_of surfsharkSubdomainToRegion (TrimSuffix ''ae-dub.prod.surfshark.com'' domainSuffix) =
     Some ''United Arab Emirates'' \<and>
   reconcileHost exampleQuote
     (surfsharkSubdomainToRegion, [], [''remote host not found in broken_udp.ovpn''])
     (''ae-dub.prod.surfshark.com'', [[10, 0, 0, 2]]) =
     (AList.delete ''ae-dub'' surfsharkSubdomainToRegion,
      [\<lparr>Region = ''United Arab Emirates'', IPs = [[10, 0, 0, 2]]\<rparr>],
      [''remote host not found in broken_udp.ovpn'']) \<and>
   \<lparr>Region = ''United Arab Emirates'', IPs = [[10, 0, 0, 2]]\<rparr>
     \<in> set (fst (findSurfsharkServersFromZip exampleEnv)) \<and>
   map_of (AList.delete ''ae-dub'' surfsharkSubdomainToRegion)
     (TrimSuffix ''ae-dub'' domainSuffix) = None \<and>
   reconcileHost exampleQuote
     (AList.delete ''ae-dub'' surfsharkSubdomainToRegion,
      [\<lparr>Region = ''United Arab Emirates'', IPs = [[10, 0, 0, 2]]\<rparr>], [])
     (''ae-dub'', [[10, 0, 0, 2]]) =
     (AList.delete ''ae-dub'' surfsharkSubdomainToRegion,
      [\<lparr>Region = ''United Arab Emirates'', IPs = [[10, 0, 0, 2]]\<rparr>,
       \<lparr>Region = ''ae-dub'', IPs = [[10, 0, 0, 2]]\<rparr>],
      [''subdomain '' @ exampleQuote ''ae-dub'' @ '' not found in Surfshark mapping'']) \<and>
   \<lparr>Region = ''ae-dub'', IPs = [[10, 0, 0, 2]]\<rparr>
     \<in> set (fst (findSurfsharkServersFromZip repeatedCodeEnv)) \<and>
   ''subdomain '' @ exampleQuote ''ae-dub'' @ '' not found in Surfshark mapping''
     \<in> set (fst (snd (findSurfsharkServersFromZip repeatedCodeEnv)))"
proof -
  let ?contents = "[
       (''ae-dub_udp.ovpn'', ''remote ae-dub.prod.surfshark.com''),
       (''ae-dub_tcp.ovpn'', ''remote ae-dub.prod.surfshark.com''),
       (''zz-new_udp.ovpn'', ''remote zz-new.prod.surfshark.com''),
       (''broken_udp.ovpn'', ''client'')]"
  let ?contents' = "[
       (''ae-dub_udp.ovpn'', ''remote ae-dub.prod.surfshark.com''),
       (''ae-dub-short_udp.ovpn'', ''remote ae-dub'')]"
  let ?ae = "(''ae-dub.prod.surfshark.com'', [[10, 0, 0, 2::nat]])"
  let ?zz = "(''zz-new.prod.surfshark.com'', [[10, 0, 0, 2::nat]])"
  let ?short = "(''ae-dub'', [[10, 0, 0, 2::nat]])"
  have fetch: "fetchAndExtractFiles exampleEnv = Inr ?contents"
    by (simp add: exampleEnv_def)
  have p: "extractHostFromOVPN exampleEnv = exampleParse"
    and q: "quote exampleEnv = exampleQuote"
    by (simp_all add: exampleEnv_def)
  have fetch': "fetchAndExtractFiles repeatedCodeEnv = Inr ?contents'"
    by (simp add: repeatedCodeEnv_def)
  have p': "extractHostFromOVPN repeatedCodeEnv = exampleParse"
    and q': "quote repeatedCodeEnv = exampleQuote"
    by (simp_all add: repeatedCodeEnv_def)
  have extract': "extractHosts exampleParse ?contents' =
      ([''ae-dub.prod.surfshark.com'', ''ae-dub''], [])"
    by (simp add: extractHosts_def exampleParse_def HasSuffix_def Let_def)
  have zz: "TrimSuffix ''zz-new.prod.surfshark.com'' domainSuffix = ''zz-new''"
    and ae: "TrimSuffix ''ae-dub.prod.surfshark.com'' domainSuffix = ''ae-dub''"
    and short: "TrimSuffix ''ae-dub'' domainSuffix = ''ae-dub''"
    by (simp_all add: TrimSuffix_def HasSuffix_def domainSuffix_def)
  have pass1a: "parallelResolve exampleEnv
      (fst (extractHosts (extractHostFromOVPN exampleEnv) ?contents))
      repetition timeBetween True = ([?ae] @ ?zz # [], [], None)"
    unfolding p example_extract by (simp add: exampleEnv_def)
  have pass1b: "parallelResolve exampleEnv
      (fst (extractHosts (extractHostFromOVPN exampleEnv) ?contents))
      repetition timeBetween True = ([] @ ?ae # [?zz], [], None)"
    using pass1a by simp
  have pass1c: "parallelResolve repeatedCodeEnv
      (fst (extractHosts (extractHostFromOVPN repeatedCodeEnv) ?contents'))
      repetition timeBetween True = ([?ae] @ ?short # [], [], None)"
    unfolding p' extract' by (simp add: repeatedCodeEnv_def)
  have ips: "[[10, 0, 0, 2::nat]] \<noteq> []"
    by simp
  have loopa: "reconcileHosts (quote exampleEnv)
      (surfsharkSubdomainToRegion, [],
       snd (extractHosts (extractHostFromOVPN exampleEnv) ?contents)) [?ae] =
      (AList.delete ''ae-dub'' surfsharkSubdomainToRegion,
       [\<lparr>Region = ''United Arab Emirates'', IPs = [[10, 0, 0, 2]]\<rparr>],
       [''remote host not found in broken_udp.ovpn''])"
    unfolding p q example_extract
    by (simp add: reconcileHosts_def ae table_ae_dub uniqueSortedIPs_single Let_def)
  have loopb: "reconcileHosts (quote exampleEnv)
      (surfsharkSubdomainToRegion, [],
       snd (extractHosts (extractHostFromOVPN exampleEnv) ?contents)) [] =
      (surfsharkSubdomainToRegion, [], [''remote host not found in broken_udp.ovpn''])"
    unfolding p q example_extract by (simp add: reconcileHosts_Nil)
  have loopc: "reconcileHosts (quote repeatedCodeEnv)
      (surfsharkSubdomainToRegion, [],
       snd (extractHosts (extractHostFromOVPN repeatedCodeEnv) ?contents')) [?ae] =
      (AList.delete ''ae-dub'' surfsharkSubdomainToRegion,
       [\<lparr>Region = ''United Arab Emirates'', IPs = [[10, 0, 0, 2]]\<rparr>], [])"
    unfolding p' q' extract'
    by (simp add: reconcileHosts_def ae table_ae_dub uniqueSortedIPs_single Let_def)
  note a = unmapped_code_keeps_server [OF fetch pass1a ips loopa, of "[]"]
  note b = unmapped_code_keeps_server [OF fetch pass1b ips loopb, of "''United Arab Emirates''"]
  note c = unmapped_code_keeps_server [OF fetch' pass1c ips loopc, of "[]"]
  have none: "map_of surfsharkSubdomainToRegion
      (TrimSuffix ''zz-new.prod.surfshark.com'' domainSuffix) = None"
    unfolding zz by (rule table_zz_new)
  have some: "map_of surfsharkSubdomainToRegion
      (TrimSuffix ''ae-dub.prod.surfshark.com'' domainSuffix) = Some ''United Arab Emirates''"
    unfolding ae by (rule table_ae_dub)
  have gone: "map_of (AList.delete ''ae-dub'' surfsharkSubdomainToRegion)
      (TrimSuffix ''ae-dub'' domainSuffix) = None"
    unfolding short by (simp add: AList.delete_conv)
  from a none have a': "\<lparr>Region = TrimSuffix ''zz-new.prod.surfshark.com'' domainSuffix,
        IPs = uniqueSortedIPs [[10, 0, 0, 2]]\<rparr> \<in> set (fst (findSurfsharkServersFromZip exampleEnv))"
    "''subdomain '' @ quote exampleEnv (TrimSuffix ''zz-new.prod.surfshark.com'' domainSuffix) @
       '' not found in Surfshark mapping''
       \<in> set (fst (snd (findSurfsharkServersFromZip exampleEnv)))"
    by blast+
  from b some have b': "reconcileHost (quote exampleEnv)
       (surfsharkSubdomainToRegion, [], [''remote host not found in broken_udp.ovpn''])
       ?ae =
       (AList.delete (TrimSuffix ''ae-dub.prod.surfshark.com'' domainSuffix)
          surfsharkSubdomainToRegion,
        [] @ [\<lparr>Region = ''United Arab Emirates'', IPs = uniqueSortedIPs [[10, 0, 0, 2]]\<rparr>],
        [''remote host not found in broken_udp.ovpn''])"
    "\<lparr>Region = ''United Arab Emirates'', IPs = uniqueSortedIPs [[10, 0, 0, 2]]\<rparr>
       \<in> set (fst (findSurfsharkServersFromZip exampleEnv))"
    by blast+
  from c gone have c': "reconcileHost (quote repeatedCodeEnv)
       (AList.delete ''ae-dub'' surfsharkSubdomainToRegion,
        [\<lparr>Region = ''United Arab Emirates'', IPs = [[10, 0, 0, 2]]\<rparr>], [])
       ?short =
       (AList.delete ''ae-dub'' surfsharkSubdomainToRegion,
        [\<lparr>Region = ''United Arab Emirates'', IPs = [[10, 0, 0, 2]]\<rparr>] @
        [\<lparr>Region = TrimSuffix ''ae-dub'' domainSuffix, IPs = uniqueSortedIPs [[10, 0, 0, 2]]\<rparr>],
        [] @ [''subdomain '' @ quote repeatedCodeEnv (TrimSuffix ''ae-dub'' domainSuffix) @
              '' not found in Surfshark mapping''])"
    "\<lparr>Region = TrimSuffix ''ae-dub'' domainSuffix, IPs = uniqueSortedIPs [[10, 0, 0, 2]]\<rparr>
       \<in> set (fst (findSurfsharkServersFromZip repeatedCodeEnv))"
    "''subdomain '' @ quote repeatedCodeEnv (TrimSuffix ''ae-dub'' domainSuffix) @
       '' not found in Surfshark mapping''
       \<in> set (fst (snd (findSurfsharkServersFromZip repeatedCodeEnv)))"
    by blast+
  show ?thesis
    using none some gone a' b' c'
    unfolding zz ae short q q' uniqueSortedIPs_single append_Nil append_Cons
    by (intro conjI)
qed

text \<open>
  C10. \<^verbatim>\<open>updateSurfshark\<close> appends the warnings to the log exactly when the option
  \<^verbatim>\<open>CLI\<close> is set, whether \<^verbatim>\<open>findSurfsharkServersFromZip\<close> failed or not; on an
  error it returns an error that wraps it and the stored timestamp and servers keep their
  values; on success they become the current time and the servers found.
\<close>

theorem update_writes_only_on_success:
  assumes "findSurfsharkServersFromZip env = (servers, warnings, err)"
  shows "logged (snd (updateSurfshark env u)) =
           logged u @
           (if CLI (opts u) then map (\<lambda>warning. ''Surfshark: '' @ warning) warnings else []) \<and>
         Surfshark (snd (updateSurfshark env u)) =
           (case err of
              Some e \<Rightarrow> Surfshark u
            | None \<Rightarrow> \<lparr>Timestamp = timeNow u, Servers = servers\<rparr>) \<and>
         fst (updateSurfshark env u) =
           (case err of
              Some e \<Rightarrow> Some (WrapError (''cannot update Surfshark servers: '' @ message e) e)
            | None \<Rightarrow> None)"
proof (cases err)
  case None
  with assms show ?thesis by (simp add: update_success)
next
  case (Some e)
  with assms show ?thesis by (simp add: update_failure)
qed

theorem update_writes_only_on_success_witness:
  "logged (snd (updateSurfshark strictFailureEnv exampleUpdater)) =
     [''Surfshark: remote host not found in broken_udp.ovpn''] \<and>
   Surfshark (snd (updateSurfshark strictFailureEnv exampleUpdater)) =
     \<lparr>Timestamp = 1600000000, Servers = [\<lparr>Region = ''Albania'', IPs = [[10, 0, 3, 4]]\<rparr>]\<rparr> \<and>
   fst (updateSurfshark strictFailureEnv exampleUpdater) \<noteq> None \<and>
   logged (snd (updateSurfshark exampleEnv (exampleUpdater\<lparr>opts := \<lparr>CLI = False, Stdout = False\<rparr>\<rparr>))) = [] \<and>
   Surfshark (snd (updateSurfshark exampleEnv exampleUpdater)) =
     \<lparr>Timestamp = 1700000000,
      Servers = [\<lparr>Region = ''Albania'', IPs = [[10, 0, 3, 4], [10, 0, 3, 5]]\<rparr>,
                 \<lparr>Region = ''United Arab Emirates'', IPs = [[10, 0, 0, 2]]\<rparr>,
                 \<lparr>Region = ''zz-new'', IPs = [[10, 0, 0, 2]]\<rparr>]\<rparr> \<and>
   fst (updateSurfshark exampleEnv exampleUpdater) = None"
  using update_writes_only_on_success [OF strictFailure_run, of exampleUpdater]
    update_writes_only_on_success [OF example_run, of exampleUpdater]
    update_writes_only_on_success [OF example_run,
      of "exampleUpdater\<lparr>opts := \<lparr>CLI = False, Stdout = False\<rparr>\<rparr>"]
  by (simp add: exampleUpdater_def)


end
